theory Spec2Isabelle
  imports Main
begin

section \<open>The ICU build scripts, embedded\<close>

text \<open>
  The repository holds two Python scripts, \<^verbatim>\<open>build_icu.py\<close> (class \<^verbatim>\<open>ICUBuilder\<close>, the
  configure-driven strategy under Cygwin) and \<^verbatim>\<open>build_icu_native.py\<close> (class
  \<^verbatim>\<open>ICUNativeBuilder\<close>, the project-file-driven strategy with MSBuild). Each method of
  the two classes becomes a function on an explicit state: the builder object together
  with the filesystem it acts on and the lines it prints. A Python exception is the
  \<open>Inl\<close> branch of the result; the state reached when it was raised is kept.
\<close>

subsection \<open>Paths and the filesystem\<close>

text \<open>
  A \<^verbatim>\<open>pathlib.Path\<close> is the list of its components from the root; a relative path is
  resolved against the process directory, which is the workspace throughout (no script
  changes directory). A directory listing (\<^verbatim>\<open>glob\<close>, \<^verbatim>\<open>rglob\<close>, \<^verbatim>\<open>iterdir\<close>) enumerates
  in the order of the entry list.

  The operating system can refuse an access, which Python reports as
  \<^verbatim>\<open>PermissionError\<close>. Three kinds of refusal are kept apart:
  \<^item> \<open>unsearchable\<close> directories cannot be traversed: every access to a path below one,
    \<^verbatim>\<open>exists()\<close> and \<^verbatim>\<open>stat()\<close> included, raises;
  \<^item> \<open>unlistable\<close> directories cannot be enumerated: \<^verbatim>\<open>glob\<close> yields nothing from one
    (it swallows the refusal), \<^verbatim>\<open>iterdir\<close> raises;
  \<^item> \<open>denied\<close> paths cannot be opened, created or deleted.
\<close>

type_synonym path = "string list"

datatype fdata = Text string | Zip "(path \<times> fdata) list"

datatype node = Dir | File fdata

record filesys =
  entries :: "(path \<times> node) list"
  denied :: "path list"
  unsearchable :: "path list"
  unlistable :: "path list"

datatype exn =
    FileExistsError | FileNotFoundError | NotADirectoryError | IsADirectoryError
  | PermissionError | SameFileError | UnicodeDecodeError | BadZipFile
  | ConnectionError | HTTPError | OSError

fun norm_acc :: "path \<Rightarrow> path \<Rightarrow> path" where
  "norm_acc acc [] = rev acc"
| "norm_acc acc (c # cs) =
     (if c = ''..'' then norm_acc (case acc of [] \<Rightarrow> [] | _ # a \<Rightarrow> a) cs
      else norm_acc (c # acc) cs)"

definition norm_path :: "path \<Rightarrow> path" where
  \<comment> \<open>\<^verbatim>\<open>a/b/..\<close> names \<^verbatim>\<open>a\<close>: Windows resolves \<^verbatim>\<open>..\<close> lexically.\<close>
  "norm_path p = norm_acc [] p"

definition node_at :: "filesys \<Rightarrow> path \<Rightarrow> node option" where
  "node_at F p = map_of (entries F) (norm_path p)"

definition has_dir :: "filesys \<Rightarrow> path \<Rightarrow> bool" where
  "has_dir F p = (node_at F p = Some Dir)"

definition is_under :: "path \<Rightarrow> path \<Rightarrow> bool" where
  \<comment> \<open>\<open>q\<close> is \<open>p\<close> or lies below it\<close>
  "is_under p q = (take (length p) q = p)"

definition blocked :: "filesys \<Rightarrow> path \<Rightarrow> bool" where
  \<comment> \<open>a directory above \<open>p\<close> cannot be traversed\<close>
  "blocked F p =
     list_ex (\<lambda>u. is_under u (norm_path p) \<and> u \<noteq> norm_path p) (unsearchable F)"

definition is_denied :: "filesys \<Rightarrow> path \<Rightarrow> bool" where
  "is_denied F p = (norm_path p \<in> set (denied F))"

definition stat :: "filesys \<Rightarrow> path \<Rightarrow> exn + node" where
  \<comment> \<open>\<^verbatim>\<open>Path.stat()\<close>; the scripts read only \<^verbatim>\<open>st_size\<close> from it, to print it\<close>
  "stat F p =
     (if blocked F p then Inl PermissionError
      else case node_at F p of None \<Rightarrow> Inl FileNotFoundError | Some n \<Rightarrow> Inr n)"

definition exists_path :: "filesys \<Rightarrow> path \<Rightarrow> exn + bool" where
  \<comment> \<open>\<^verbatim>\<open>Path.exists()\<close>: \<open>False\<close> for a missing path, and the refusal of a directory
      above it raised again\<close>
  "exists_path F p =
     (if blocked F p then Inl PermissionError else Inr (node_at F p \<noteq> None))"

definition lower :: "char \<Rightarrow> char" where
  "lower c = (let n = (of_char c :: nat) in if 65 \<le> n \<and> n \<le> 90 then char_of (n + 32) else c)"

definition ends_with :: "string \<Rightarrow> string \<Rightarrow> bool" where
  "ends_with ext name =
     (length ext \<le> length name \<and> drop (length name - length ext) name = ext)"

definition matches_ext :: "string \<Rightarrow> string \<Rightarrow> bool" where
  \<comment> \<open>the pattern \<^verbatim>\<open>"*" + ext\<close>; on Windows the match ignores case\<close>
  "matches_ext ext name = ends_with (map lower ext) (map lower name)"

definition glob :: "filesys \<Rightarrow> path \<Rightarrow> string \<Rightarrow> exn + path list" where
  \<comment> \<open>\<^verbatim>\<open>list(d.glob("*" + ext))\<close>: the entries directly in \<open>d\<close> (files or directories)
      whose name matches; nothing when \<open>d\<close> is not a directory or cannot be listed.\<close>
  "glob F d ext =
     (if blocked F d then Inl PermissionError
      else if has_dir F d \<and> norm_path d \<notin> set (unlistable F)
      then Inr (filter (\<lambda>p. p \<noteq> [] \<and> butlast p = norm_path d \<and> matches_ext ext (last p))
                  (map fst (entries F)))
      else Inr [])"

definition hidden :: "filesys \<Rightarrow> path \<Rightarrow> path \<Rightarrow> bool" where
  \<comment> \<open>\<open>q\<close> lies below a directory of the tree at \<open>d\<close> that cannot be listed or traversed\<close>
  "hidden F d q =
     list_ex (\<lambda>u. is_under d u \<and> is_under u q \<and> u \<noteq> q) (unlistable F @ unsearchable F)"

fun put :: "path \<Rightarrow> node \<Rightarrow> (path \<times> node) list \<Rightarrow> (path \<times> node) list" where
  "put p n [] = [(p, n)]"
| "put p n ((q, m) # es) = (if q = p then (p, n) # es else (q, m) # put p n es)"

definition parent_is_dir :: "filesys \<Rightarrow> path \<Rightarrow> bool" where
  "parent_is_dir F p = (norm_path p \<noteq> [] \<and> has_dir F (butlast (norm_path p)))"

definition mkdir :: "path \<Rightarrow> filesys \<Rightarrow> (exn + unit) \<times> filesys" where
  \<comment> \<open>\<^verbatim>\<open>Path.mkdir()\<close> with its defaults\<close>
  "mkdir p F =
     (if blocked F p then (Inl PermissionError, F)
      else if node_at F p \<noteq> None then (Inl FileExistsError, F)
      else if \<not> parent_is_dir F p then (Inl FileNotFoundError, F)
      else if is_denied F p then (Inl PermissionError, F)
      else (Inr (), F\<lparr>entries := entries F @ [(norm_path p, Dir)]\<rparr>))"

definition rmtree :: "path \<Rightarrow> filesys \<Rightarrow> (exn + unit) \<times> filesys" where
  \<comment> \<open>\<^verbatim>\<open>shutil.rmtree(p)\<close>; a refusal in the tree is reported before anything is removed\<close>
  "rmtree p F =
     (if blocked F p then (Inl PermissionError, F)
      else case node_at F p of
        None \<Rightarrow> (Inl FileNotFoundError, F)
      | Some (File d) \<Rightarrow> (Inl NotADirectoryError, F)
      | Some Dir \<Rightarrow>
          (if list_ex (\<lambda>q. is_under (norm_path p) q) (denied F @ unlistable F @ unsearchable F)
           then (Inl PermissionError, F)
           else (Inr (), F\<lparr>entries := filter (\<lambda>(q, n). \<not> is_under (norm_path p) q) (entries F)\<rparr>)))"

definition write_file :: "path \<Rightarrow> fdata \<Rightarrow> filesys \<Rightarrow> (exn + unit) \<times> filesys" where
  \<comment> \<open>open for writing, write, close\<close>
  "write_file p d F =
     (if blocked F p then (Inl PermissionError, F)
      else if has_dir F p then (Inl IsADirectoryError, F)
      else if \<not> parent_is_dir F p then (Inl FileNotFoundError, F)
      else if is_denied F p then (Inl PermissionError, F)
      else (Inr (), F\<lparr>entries := put (norm_path p) (File d) (entries F)\<rparr>))"

definition read_file :: "path \<Rightarrow> filesys \<Rightarrow> exn + fdata" where
  "read_file p F =
     (if blocked F p then Inl PermissionError
      else case node_at F p of
        None \<Rightarrow> Inl FileNotFoundError
      | Some Dir \<Rightarrow> Inl IsADirectoryError
      | Some (File d) \<Rightarrow> (if is_denied F p then Inl PermissionError else Inr d))"

definition read_text :: "path \<Rightarrow> filesys \<Rightarrow> exn + string" where
  \<comment> \<open>\<^verbatim>\<open>Path.read_text(encoding='utf-8')\<close>; an archive is not text\<close>
  "read_text p F =
     (case read_file p F of
        Inl e \<Rightarrow> Inl e
      | Inr (Zip zs) \<Rightarrow> Inl UnicodeDecodeError
      | Inr (Text t) \<Rightarrow> Inr t)"

definition copy2 :: "path \<Rightarrow> path \<Rightarrow> filesys \<Rightarrow> (exn + unit) \<times> filesys" where
  \<comment> \<open>\<^verbatim>\<open>shutil.copy2(src, dst)\<close>: into \<open>dst\<close> when it is a directory, onto it otherwise\<close>
  "copy2 src dst F =
     (let target = (if has_dir F dst \<and> \<not> blocked F dst
                    then norm_path dst @ [last (norm_path src)] else norm_path dst)
      in if norm_path src = [] then (Inl IsADirectoryError, F)
         else if target = norm_path src \<and> node_at F src \<noteq> None \<and> \<not> blocked F src
         then (Inl SameFileError, F)
         else case read_file src F of
                Inl e \<Rightarrow> (Inl e, F)
              | Inr d \<Rightarrow> write_file target d F)"

fun copy_entries ::
  "path \<Rightarrow> path \<Rightarrow> (path \<times> node) list \<Rightarrow> filesys \<Rightarrow> bool \<Rightarrow> bool \<times> filesys" where
  "copy_entries src dst [] F bad = (bad, F)"
| "copy_entries src dst ((q, n) # es) F bad =
     (if is_under src q \<and> q \<noteq> src \<and> \<not> hidden F src q then
        (let t = dst @ drop (length src) q in
         case n of
           Dir \<Rightarrow>
             (if q \<in> set (unlistable F @ unsearchable F) then
                copy_entries src dst es
                  (if node_at F t = None \<and> \<not> is_denied F t
                   then F\<lparr>entries := entries F @ [(t, Dir)]\<rparr> else F) True
              else if has_dir F t then copy_entries src dst es F bad
              else if node_at F t \<noteq> None \<or> is_denied F t then copy_entries src dst es F True
              else copy_entries src dst es (F\<lparr>entries := entries F @ [(t, Dir)]\<rparr>) bad)
         | File d \<Rightarrow>
             (if is_denied F q then copy_entries src dst es F True
              else case write_file t d F of
                     (Inl e, F') \<Rightarrow> copy_entries src dst es F' True
                   | (Inr u, F') \<Rightarrow> copy_entries src dst es F' bad))
      else copy_entries src dst es F bad)"

definition copytree :: "path \<Rightarrow> path \<Rightarrow> filesys \<Rightarrow> (exn + unit) \<times> filesys" where
  \<comment> \<open>\<^verbatim>\<open>shutil.copytree(src, dst, dirs_exist_ok=True)\<close>: entries that cannot be copied
      are collected and reported after the others are copied.\<close>
  "copytree src dst F =
     (if blocked F src then (Inl PermissionError, F)
      else case node_at F src of
        None \<Rightarrow> (Inl FileNotFoundError, F)
      | Some (File d) \<Rightarrow> (Inl NotADirectoryError, F)
      | Some Dir \<Rightarrow>
          (if norm_path src \<in> set (unlistable F) then (Inl PermissionError, F)
           else case (if has_dir F dst \<and> \<not> blocked F dst then (Inr (), F) else mkdir dst F) of
             (Inl e, F') \<Rightarrow> (Inl e, F')
           | (Inr u, F') \<Rightarrow>
               (case copy_entries (norm_path src) (norm_path dst) (entries F) F' False of
                  (True, F'') \<Rightarrow> (Inl OSError, F'')
                | (False, F'') \<Rightarrow> (Inr (), F''))))"

definition rglob_files :: "filesys \<Rightarrow> path \<Rightarrow> path list" where
  \<comment> \<open>the files among \<^verbatim>\<open>d.rglob("*")\<close>; what lies below a directory that cannot be
      listed is not found\<close>
  "rglob_files F d =
     (if has_dir F d \<and> norm_path d \<notin> set (unlistable F)
      then filter (\<lambda>p. is_under (norm_path d) p \<and> p \<noteq> norm_path d
                       \<and> \<not> hidden F (norm_path d) p
                       \<and> (case node_at F p of Some (File x) \<Rightarrow> True | _ \<Rightarrow> False))
             (map fst (entries F))
      else [])"

definition zip_members :: "filesys \<Rightarrow> path \<Rightarrow> (exn + (path \<times> fdata) list)" where
  \<comment> \<open>the loop \<^verbatim>\<open>for file_path in artifact_dir.rglob("*"): if file_path.is_file():
      zipf.write(file_path, file_path.relative_to(artifact_dir))\<close>\<close>
  "zip_members F d =
     (if blocked F d \<or> list_ex (\<lambda>p. is_denied F p) (rglob_files F d) then Inl PermissionError
      else Inr (map (\<lambda>p. (drop (length (norm_path d)) p,
                           (case node_at F p of Some (File x) \<Rightarrow> x | _ \<Rightarrow> Text [])))
                  (rglob_files F d)))"

fun extract_entries :: "path \<Rightarrow> (path \<times> fdata) list \<Rightarrow> (path \<times> node) list \<Rightarrow> (path \<times> node) list" where
  "extract_entries root [] es = es"
| "extract_entries root ((p, d) # zs) es =
     extract_entries root zs
       (put (root @ p) (File d)
          (fold (\<lambda>k es'. if map_of es' (root @ take k p) = None
                          then es' @ [(root @ take k p, Dir)] else es')
             [1 ..< length p] es))"

definition extractall :: "path \<Rightarrow> path \<Rightarrow> filesys \<Rightarrow> (exn + unit) \<times> filesys" where
  \<comment> \<open>\<^verbatim>\<open>with zipfile.ZipFile(z, 'r') as zip_ref: zip_ref.extractall(root)\<close>\<close>
  "extractall z root F =
     (case read_file z F of
        Inl e \<Rightarrow> (Inl e, F)
      | Inr (Text t) \<Rightarrow> (Inl BadZipFile, F)
      | Inr (Zip zs) \<Rightarrow>
          (if list_ex (\<lambda>(p, d). is_denied F (root @ p) \<or> blocked F (root @ p)) zs
           then (Inl PermissionError, F)
           else (Inr (), F\<lparr>entries := extract_entries (norm_path root) zs (entries F)\<rparr>)))"

subsection \<open>Output, external collaborators and the state\<close>

text \<open>
  Every \<^verbatim>\<open>print\<close> is an event; the leading pictogram of a line is its \<open>level\<close>. File
  sizes, which the scripts print as floating-point megabytes, are left out of the text.
  A network request and the launch of an external process are events as well.
\<close>

datatype level = Info | Success | Warning | Failure

datatype script =
    PrepareScript path
  | ConfigureScript path string "string list"
  | MakeScript path string
  | InstallScript path string path

datatype command = Bash path script | MSBuild "string list"

datatype event = Print level string | HttpGet string | Run command

record proc_result =
  returncode :: int
  stdout :: string
  stderr :: string

text \<open>
  A command line is \<^verbatim>\<open>bash.exe --login -o igncr -c <script>\<close> or the argument list of
  \<^verbatim>\<open>msbuild\<close>. The text of a shell script is fixed up to the values interpolated into
  it, so a script is its kind with those values: the source directory, the
  architecture, the arguments of \<^verbatim>\<open>runConfigureICU\<close>, the install prefix.
\<close>

text \<open>
  The collaborators the scripts call and do not define: the process environment, the
  HTTP client (\<^verbatim>\<open>requests.get\<close>, \<^verbatim>\<open>raise_for_status\<close> and the body; a body may break
  off with an exception after part of it arrived), \<^verbatim>\<open>subprocess.run\<close> (which raises, or
  returns a result and leaves the filesystem changed) and the clock.
\<close>

record env =
  environ :: "string \<Rightarrow> string option"
  http_get :: "string \<Rightarrow> exn + (fdata \<times> exn option)"
  run_process :: "command \<Rightarrow> filesys \<Rightarrow> exn + (proc_result \<times> filesys)"
  now :: string

record 'c builder =
  config :: 'c
  workspace :: path
  source_dir :: path
  fs :: filesys
  out :: "event list"

type_synonym ('a, 's) io = "'s \<Rightarrow> (exn + 'a) \<times> 's"

definition return_io :: "'a \<Rightarrow> ('a, 's) io" where
  "return_io a s = (Inr a, s)"

definition raise_io :: "exn \<Rightarrow> ('a, 's) io" where
  "raise_io e s = (Inl e, s)"

definition bind_io :: "('a, 's) io \<Rightarrow> ('a \<Rightarrow> ('b, 's) io) \<Rightarrow> ('b, 's) io" where
  "bind_io m f s = (case m s of (Inl e, s') \<Rightarrow> (Inl e, s') | (Inr a, s') \<Rightarrow> f a s')"

definition then_io :: "('a, 's) io \<Rightarrow> ('b, 's) io \<Rightarrow> ('b, 's) io" where
  "then_io m k = bind_io m (\<lambda>_. k)"

definition try_io :: "('a, 's) io \<Rightarrow> (exn \<Rightarrow> ('a, 's) io) \<Rightarrow> ('a, 's) io" where
  \<comment> \<open>\<^verbatim>\<open>try: m  except Exception as e: h(e)\<close>\<close>
  "try_io m h s = (case m s of (Inl e, s') \<Rightarrow> h e s' | (Inr a, s') \<Rightarrow> (Inr a, s'))"

definition when_io :: "bool \<Rightarrow> (unit, 's) io \<Rightarrow> (unit, 's) io" where
  "when_io b m = (if b then m else return_io ())"

fun for_io :: "'x list \<Rightarrow> ('x \<Rightarrow> (unit, 's) io) \<Rightarrow> (unit, 's) io" where
  "for_io [] body = return_io ()"
| "for_io (x # xs) body = then_io (body x) (for_io xs body)"

definition emit :: "event \<Rightarrow> (unit, ('c, 'z) builder_scheme) io" where
  "emit ev s = (Inr (), s\<lparr>out := out s @ [ev]\<rparr>)"

definition print :: "level \<Rightarrow> string \<Rightarrow> (unit, ('c, 'z) builder_scheme) io" where
  "print lv msg = emit (Print lv msg)"

definition on_fs ::
  "(filesys \<Rightarrow> (exn + 'a) \<times> filesys) \<Rightarrow> ('a, ('c, 'z) builder_scheme) io" where
  "on_fs f s = (case f (fs s) of (r, F') \<Rightarrow> (r, s\<lparr>fs := F'\<rparr>))"

definition ask_fs ::
  "(filesys \<Rightarrow> exn + 'a) \<Rightarrow> ('a, ('c, 'z) builder_scheme) io" where
  \<comment> \<open>an access that reads the filesystem and may be refused\<close>
  "ask_fs f s = (f (fs s), s)"

definition exists_io :: "path \<Rightarrow> (bool, ('c, 'z) builder_scheme) io" where
  "exists_io p = ask_fs (\<lambda>F. exists_path F p)"

definition glob_io :: "path \<Rightarrow> string \<Rightarrow> (path list, ('c, 'z) builder_scheme) io" where
  "glob_io d ext = ask_fs (\<lambda>F. glob F d ext)"

definition stat_io :: "path \<Rightarrow> (node, ('c, 'z) builder_scheme) io" where
  "stat_io p = ask_fs (\<lambda>F. stat F p)"

definition path_str :: "path \<Rightarrow> string" where
  "path_str p = (case p of [] \<Rightarrow> [] | c # cs \<Rightarrow> c @ concat (map (\<lambda>x. ''/'' @ x) cs))"

subsection \<open>The pipeline: \<^verbatim>\<open>build\<close>\<close>

text \<open>
  Both classes end in the same loop:
  \<^verbatim>\<open>
  for step_name, step_func in steps:
      print(banner with step_name)
      if not step_func():
          print(f"Build failed at step: {step_name}")
          return False
      print()
  print(completion message)
  return True
  \<close>
  There is no \<^verbatim>\<open>try\<close> around \<^verbatim>\<open>step_func()\<close>: an exception a step raises leaves the loop
  and \<^verbatim>\<open>build\<close>.
\<close>

definition print_banner :: "string \<Rightarrow> (unit, ('c, 'z) builder_scheme) io" where
  "print_banner step_name =
     then_io (print Info (replicate 50 (CHR ''='')))
       (then_io (print Info step_name) (print Info (replicate 50 (CHR ''=''))))"

fun run_steps ::
  "(string \<times> (bool, ('c, 'z) builder_scheme) io) list \<Rightarrow> (bool, ('c, 'z) builder_scheme) io" where
  "run_steps [] = return_io True"
| "run_steps ((step_name, step_func) # rest) =
     then_io (print_banner step_name)
       (bind_io step_func (\<lambda>ok.
          if \<not> ok then then_io (print Failure (''Build failed at step: '' @ step_name))
                           (return_io False)
          else then_io (print Info []) (run_steps rest)))"

definition run_pipeline ::
  "string \<Rightarrow> (string \<times> (bool, ('c, 'z) builder_scheme) io) list \<Rightarrow>
     (bool, ('c, 'z) builder_scheme) io" where
  "run_pipeline done_msg steps =
     bind_io (run_steps steps) (\<lambda>ok.
       if ok then then_io (print Success done_msg) (return_io True) else return_io False)"

subsection \<open>Strings\<close>

definition starts_with :: "string \<Rightarrow> string \<Rightarrow> bool" where
  "starts_with pat t = (take (length pat) t = pat)"

fun contains_str :: "string \<Rightarrow> string \<Rightarrow> bool" where
  \<comment> \<open>\<^verbatim>\<open>pat in t\<close>\<close>
  "contains_str pat [] = (pat = [])"
| "contains_str pat (c # cs) = (starts_with pat (c # cs) \<or> contains_str pat cs)"

function replace_str :: "string \<Rightarrow> string \<Rightarrow> string \<Rightarrow> string" where
  \<comment> \<open>\<^verbatim>\<open>t.replace(pat, new)\<close>: every occurrence, left to right, without overlap\<close>
  "replace_str pat new t =
     (if pat = [] then new @ concat (map (\<lambda>c. c # new) t)
      else if t = [] then []
      else if starts_with pat t then new @ replace_str pat new (drop (length pat) t)
      else hd t # replace_str pat new (tl t))"
  by pat_completeness auto
termination
  by (relation "measure (\<lambda>(pat, new, t). length t)") auto

fun show_nat :: "nat \<Rightarrow> string" where
  "show_nat n =
     (if n < 10 then [char_of (48 + n)]
      else show_nat (n div 10) @ [char_of (48 + n mod 10)])"

fun exn_name :: "exn \<Rightarrow> string" where
  "exn_name FileExistsError = ''FileExistsError''"
| "exn_name FileNotFoundError = ''FileNotFoundError''"
| "exn_name NotADirectoryError = ''NotADirectoryError''"
| "exn_name IsADirectoryError = ''IsADirectoryError''"
| "exn_name PermissionError = ''PermissionError''"
| "exn_name SameFileError = ''SameFileError''"
| "exn_name UnicodeDecodeError = ''UnicodeDecodeError''"
| "exn_name BadZipFile = ''BadZipFile''"
| "exn_name ConnectionError = ''ConnectionError''"
| "exn_name HTTPError = ''HTTPError''"
| "exn_name OSError = ''OSError''"

subsection \<open>\<^verbatim>\<open>BuildConfig\<close>\<close>

text \<open>
  Each script declares its own \<^verbatim>\<open>@dataclass class BuildConfig\<close>, with string fields and
  no \<^verbatim>\<open>__post_init__\<close>. The one of \<^verbatim>\<open>build_icu_native.py\<close> has the four fields \<open>arch\<close>,
  \<open>build_type\<close>, \<open>icu_version\<close>, \<open>icu_tag\<close>; the one of \<^verbatim>\<open>build_icu.py\<close> has the same four
  and \<open>embed_data\<close>, so it is the extension of the first record. The generated
  constructor stores its arguments.
\<close>

record BuildConfig_native =
  arch :: string
  build_type :: string
  icu_version :: string
  icu_tag :: string

record BuildConfig = BuildConfig_native +
  embed_data :: bool

definition BuildConfig_native_init :: "string \<Rightarrow> string \<Rightarrow> string \<Rightarrow> string \<Rightarrow> BuildConfig_native" where
  "BuildConfig_native_init a b v t = \<lparr>arch = a, build_type = b, icu_version = v, icu_tag = t\<rparr>"

definition BuildConfig_init :: "string \<Rightarrow> string \<Rightarrow> bool \<Rightarrow> string \<Rightarrow> string \<Rightarrow> BuildConfig" where
  "BuildConfig_init a b e v t =
     \<lparr>arch = a, build_type = b, icu_version = v, icu_tag = t, embed_data = e\<rparr>"

definition lib_prefix :: "BuildConfig \<Rightarrow> string" where
  "lib_prefix c = (if embed_data c then ''s'' else [])"

definition artifact_suffix :: "BuildConfig \<Rightarrow> string" where
  "artifact_suffix c = (if embed_data c then ''static-data'' else ''separate-data'')"

definition artifact_name :: "BuildConfig_native \<Rightarrow> string" where
  "artifact_name c = ''icu-'' @ arch c @ ''-'' @ build_type c"

subsection \<open>The builder objects\<close>

record ICUBuilder = "BuildConfig builder" +
  build_dir :: path
  cygwin_path :: path

record ICUNativeBuilder = "BuildConfig_native builder" +
  solution_path :: path

definition ICUBuilder_init :: "BuildConfig \<Rightarrow> path \<Rightarrow> filesys \<Rightarrow> ICUBuilder" where
  \<comment> \<open>\<open>cwd\<close> is \<^verbatim>\<open>Path.cwd()\<close>\<close>
  "ICUBuilder_init c cwd F =
     \<lparr>config = c, workspace = cwd,
      source_dir = cwd @ [''icu-release-'' @ icu_tag c, ''icu4c'', ''source''],
      fs = F, out = [],
      build_dir = [''D:'', ''icu-build'', arch c @ ''-'' @ build_type c],
      cygwin_path = [''D:'', ''cygwin'']\<rparr>"

definition ICUNativeBuilder_init :: "BuildConfig_native \<Rightarrow> path \<Rightarrow> filesys \<Rightarrow> ICUNativeBuilder" where
  "ICUNativeBuilder_init c cwd F =
     \<lparr>config = c, workspace = cwd,
      source_dir = cwd @ [''icu-release-'' @ icu_tag c, ''icu4c'', ''source''],
      fs = F, out = [],
      solution_path =
        cwd @ [''icu-release-'' @ icu_tag c, ''icu4c'', ''source'', ''allinone'', ''allinone.sln'']\<rparr>"

definition get_io :: "('s, 's) io" where
  "get_io s = (Inr s, s)"

definition seq_io :: "(unit, 's) io list \<Rightarrow> (unit, 's) io" where
  "seq_io ms = foldr then_io ms (return_io ())"

fun foldM_io :: "'x list \<Rightarrow> ('x \<Rightarrow> 'a \<Rightarrow> ('a, 's) io) \<Rightarrow> 'a \<Rightarrow> ('a, 's) io" where
  "foldM_io [] body = return_io"
| "foldM_io (x # xs) body = (\<lambda>a. bind_io (body x a) (foldM_io xs body))"

definition run :: "env \<Rightarrow> command \<Rightarrow> (proc_result, ('c, 'z) builder_scheme) io" where
  \<comment> \<open>\<^verbatim>\<open>subprocess.run(cmd, ...)\<close>\<close>
  "run E cmd =
     then_io (emit (Run cmd))
       (\<lambda>s. case run_process E cmd (fs s) of
               Inl e \<Rightarrow> (Inl e, s)
             | Inr (r, F') \<Rightarrow> (Inr r, s\<lparr>fs := F'\<rparr>))"

subsection \<open>\<^verbatim>\<open>download_icu_source\<close> (the same text in both classes)\<close>

definition fetch_archive ::
  "env \<Rightarrow> (bool, ('a BuildConfig_native_scheme, 'z) builder_scheme) io" where
  \<comment> \<open>the block \<^verbatim>\<open>if not source_zip.exists(): ...\<close>; \<open>False\<close> is its \<^verbatim>\<open>return False\<close>\<close>
  "fetch_archive E =
     bind_io get_io (\<lambda>s.
       let source_zip = workspace s @ [''icu-source.zip''];
           url = ''https://github.com/unicode-org/icu/archive/refs/tags/''
                   @ icu_tag (config s) @ ''.zip''
       in bind_io (exists_io source_zip) (\<lambda>zip_exists.
          if \<not> zip_exists then
            then_io (print Info (''Downloading ICU '' @ icu_version (config s) @ '' source...''))
              (try_io
                 (then_io (emit (HttpGet url))
                    (case http_get E url of
                       Inl e \<Rightarrow> raise_io e
                     | Inr (body, broken) \<Rightarrow>
                         then_io (on_fs (write_file source_zip body))
                           (case broken of
                              Some e \<Rightarrow> raise_io e
                            | None \<Rightarrow>
                                then_io (print Success (''Downloaded: '' @ path_str source_zip))
                                  (return_io True))))
                 (\<lambda>e. then_io (print Failure (''Failed to download ICU source: '' @ exn_name e))
                        (return_io False)))
          else return_io True))"

definition download_icu_source ::
  "env \<Rightarrow> (bool, ('a BuildConfig_native_scheme, 'z) builder_scheme) io" where
  "download_icu_source E =
     then_io (print Info ''Checking for ICU source...'')
       (bind_io get_io (\<lambda>s.
          bind_io (exists_io (source_dir s)) (\<lambda>source_exists.
            if source_exists then
              then_io (print Success (''ICU source already available at: ''
                                        @ path_str (source_dir s)))
                (return_io True)
            else
              bind_io (fetch_archive E) (\<lambda>fetched.
                if \<not> fetched then return_io False
                else
                  then_io (print Info ''Extracting ICU source...'')
                    (try_io
                       (then_io (on_fs (extractall (workspace s @ [''icu-source.zip''])
                                          (workspace s)))
                          (then_io (print Success (''Extracted to: '' @ path_str (source_dir s)))
                             (return_io True)))
                       (\<lambda>e. then_io (print Failure (''Failed to extract ICU source: ''
                                                     @ exn_name e))
                              (return_io False)))))))"

subsection \<open>\<^verbatim>\<open>ICUBuilder\<close>: the configure-driven steps\<close>

definition bash_exe :: "ICUBuilder \<Rightarrow> path" where
  "bash_exe s = cygwin_path s @ [''bin'', ''bash.exe'']"

definition prepare_source :: "env \<Rightarrow> (bool, ICUBuilder) io" where
  "prepare_source E =
     then_io (print Info ''Preparing ICU source for Windows build...'')
       (try_io
          (bind_io get_io (\<lambda>s.
             bind_io (run E (Bash (bash_exe s) (PrepareScript (source_dir s)))) (\<lambda>result.
               if returncode result \<noteq> 0 then
                 then_io (print Failure (''Source preparation failed: '' @ stderr result))
                   (return_io False)
               else
                 then_io (print Success ''ICU source prepared successfully'') (return_io True))))
          (\<lambda>e. then_io (print Failure (''Failed to prepare source: '' @ exn_name e))
                 (return_io False)))"

definition get_msvc_env :: "env \<Rightarrow> (unit, ('c, 'z) builder_scheme) io" where
  \<comment> \<open>the copy of \<^verbatim>\<open>os.environ\<close> it returns is the one \<open>run_process\<close> sees\<close>
  "get_msvc_env E =
     for_io [''VCINSTALLDIR'', ''WindowsSdkBinPath'', ''PATH'']
       (\<lambda>var. when_io (environ E var = None)
                (print Warning (''Warning: '' @ var @ '' not found in environment'')))"

definition configure_args :: "ICUBuilder \<Rightarrow> string list" where
  "configure_args s =
     [''Cygwin/MSVC'', ''--enable-static'', ''--disable-shared'', ''--disable-samples'',
      ''--disable-tests'', ''--disable-extras'', ''--prefix='' @ path_str (build_dir s)]
     @ (if embed_data (config s) then [''--with-data-packaging=static''] else [])"

definition configure_build :: "env \<Rightarrow> (bool, ICUBuilder) io" where
  "configure_build E =
     bind_io get_io (\<lambda>s.
       then_io (print Info (''Configuring ICU build ('' @ arch (config s) @ '' ''
                              @ build_type (config s) @ '')...''))
      (then_io (if embed_data (config s)
                then print Info ''Using static data packaging (embedded data)''
                else print Info ''Using separate data packaging (.dat file)'')
      (then_io (get_msvc_env E)
         (try_io
            (bind_io (run E (Bash (bash_exe s)
                        (ConfigureScript (source_dir s) (arch (config s)) (configure_args s))))
               (\<lambda>result.
                  if returncode result \<noteq> 0 then
                    then_io (print Failure (''Configure failed: '' @ stderr result))
                      (then_io (print Info (''stdout: '' @ stdout result)) (return_io False))
                  else then_io (print Success ''Configure completed successfully'')
                         (return_io True)))
            (\<lambda>e. then_io (print Failure (''Configure failed: '' @ exn_name e))
                   (return_io False))))))"

definition build_icu :: "env \<Rightarrow> (bool, ICUBuilder) io" where
  "build_icu E =
     then_io (print Info ''Building ICU libraries...'')
       (try_io
          (then_io (get_msvc_env E)
             (bind_io get_io (\<lambda>s.
                bind_io (run E (Bash (bash_exe s) (MakeScript (source_dir s) (arch (config s)))))
                  (\<lambda>result.
                     if returncode result \<noteq> 0 then
                       then_io (print Failure ''Build failed'') (return_io False)
                     else then_io (print Success ''Build completed successfully'')
                            (return_io True)))))
          (\<lambda>e. then_io (print Failure (''Build failed: '' @ exn_name e)) (return_io False)))"

definition install_icu :: "env \<Rightarrow> (bool, ICUBuilder) io" where
  "install_icu E =
     then_io (print Info ''Installing ICU...'')
       (try_io
          (then_io (get_msvc_env E)
             (bind_io get_io (\<lambda>s.
                bind_io (run E (Bash (bash_exe s)
                           (InstallScript (source_dir s) (arch (config s)) (build_dir s))))
                  (\<lambda>result.
                     if returncode result \<noteq> 0 then
                       then_io (print Failure ''Install failed'') (return_io False)
                     else then_io (print Success ''Install completed successfully'')
                            (return_io True)))))
          (\<lambda>e. then_io (print Failure (''Install failed: '' @ exn_name e)) (return_io False)))"

definition if_exists :: "path \<Rightarrow> (unit, ('c, 'z) builder_scheme) io \<Rightarrow> (unit, ('c, 'z) builder_scheme) io" where
  \<comment> \<open>\<^verbatim>\<open>if p.exists(): m\<close>\<close>
  "if_exists p m = bind_io (exists_io p) (\<lambda>found. when_io found m)"

definition for_glob ::
  "path \<Rightarrow> string \<Rightarrow> (path \<Rightarrow> (unit, ('c, 'z) builder_scheme) io) \<Rightarrow> (unit, ('c, 'z) builder_scheme) io" where
  \<comment> \<open>\<^verbatim>\<open>for f in d.glob("*" + ext): body(f)\<close>\<close>
  "for_glob d ext body = bind_io (glob_io d ext) (\<lambda>files. for_io files body)"

definition print_sizes :: "path list \<Rightarrow> (unit, ('c, 'z) builder_scheme) io" where
  \<comment> \<open>\<^verbatim>\<open>for f in files: size_mb = f.stat().st_size / 1024 / 1024; print(f"  {f.name} ...")\<close>\<close>
  "print_sizes files = for_io files (\<lambda>f. then_io (stat_io f) (print Info (''  '' @ last f)))"

definition make_zip :: "path \<Rightarrow> path \<Rightarrow> filesys \<Rightarrow> (exn + unit) \<times> filesys" where
  \<comment> \<open>\<^verbatim>\<open>with zipfile.ZipFile(zip_path, 'w', ZIP_DEFLATED) as zipf:\<close> and the loop over
      \<^verbatim>\<open>artifact_dir.rglob("*")\<close>; the archive file is created when it is opened.\<close>
  "make_zip zip_path artifact_dir F =
     (case write_file zip_path (Zip []) F of
        (Inl e, F') \<Rightarrow> (Inl e, F')
      | (Inr u, F') \<Rightarrow>
          (case zip_members F' artifact_dir of
             Inl e \<Rightarrow> (Inl e, F')
           | Inr members \<Rightarrow> write_file zip_path (Zip members) F'))"

definition ICUBuilder_data_paths :: "ICUBuilder \<Rightarrow> path list" where
  \<comment> \<open>the last two are relative paths with the tag written out\<close>
  "ICUBuilder_data_paths s =
     [source_dir s @ [''data'', ''out''],
      source_dir s @ [''data'', ''out'', ''tmp''],
      workspace s @ [''icu-release-77-1'', ''icu4c'', ''data'', ''out''],
      workspace s @ [''icu-release-77-1'', ''icu4c'', ''data'']]"

definition copy_data_from :: "path \<Rightarrow> path \<Rightarrow> bool \<Rightarrow> (bool, ICUBuilder) io" where
  \<comment> \<open>one turn of \<^verbatim>\<open>for data_path in data_paths\<close>; the flag is \<^verbatim>\<open>data_found\<close>\<close>
  "copy_data_from artifact_dir data_path data_found =
     bind_io (exists_io data_path) (\<lambda>path_exists.
       if path_exists then
         bind_io (glob_io data_path ''.dat'') (\<lambda>dat_files.
           foldM_io dat_files
             (\<lambda>dat_file found.
                then_io (stat_io dat_file)
               (then_io (print Info (''Copying data file: '' @ last dat_file))
               (then_io (on_fs (copy2 dat_file (artifact_dir @ [''data''])))
                  (return_io True))))
             data_found)
       else return_io data_found)"

definition ICUBuilder_build_info :: "env \<Rightarrow> BuildConfig \<Rightarrow> string" where
  "ICUBuilder_build_info E c =
     ''ICU Version: '' @ icu_version c @ [CHR 0x0A]
     @ ''Architecture: '' @ arch c @ [CHR 0x0A]
     @ ''Build Type: '' @ build_type c @ [CHR 0x0A]
     @ ''Compiler: MSVC (Visual Studio 2022)'' @ [CHR 0x0A]
     @ ''Build Environment: Python + Cygwin/MSVC'' @ [CHR 0x0A]
     @ ''Data Packaging: ''
     @ (if embed_data c then ''Static (embedded)'' else ''Separate (.dat files)'') @ [CHR 0x0A]
     @ ''Library Prefix: '' @ (if lib_prefix c = [] then ''none'' else lib_prefix c) @ [CHR 0x0A]
     @ ''Build Date: '' @ now E @ [CHR 0x0A]"

definition ICUBuilder_package_artifacts :: "env \<Rightarrow> (bool, ICUBuilder) io" where
  "ICUBuilder_package_artifacts E =
     bind_io get_io (\<lambda>s.
       let name = ''icu-'' @ arch (config s) @ ''-'' @ build_type (config s) @ ''-''
                    @ artifact_suffix (config s);
           artifact_dir = workspace s @ [name];
           lib_src = build_dir s @ [''lib''];
           include_src = build_dir s @ [''include''];
           bin_src = build_dir s @ [''bin''];
           zip_path = workspace s @ [name @ ''.zip'']
       in then_io
            (seq_io
               [print Info ''Packaging artifacts...'',
                if_exists artifact_dir (on_fs (rmtree artifact_dir)),
                on_fs (mkdir artifact_dir),
                on_fs (mkdir (artifact_dir @ [''lib''])),
                on_fs (mkdir (artifact_dir @ [''include''])),
                on_fs (mkdir (artifact_dir @ [''bin''])),
                if_exists lib_src
                  (then_io (print Info (''Copying libraries from: '' @ path_str lib_src))
                     (for_glob lib_src ''.lib''
                        (\<lambda>lib_file. on_fs (copy2 lib_file (artifact_dir @ [''lib'']))))),
                if_exists include_src
                  (then_io (print Info (''Copying headers from: '' @ path_str include_src))
                     (on_fs (copytree include_src (artifact_dir @ [''include''])))),
                if_exists bin_src
                  (then_io (print Info (''Copying binaries from: '' @ path_str bin_src))
                     (for_glob bin_src ''.exe''
                        (\<lambda>bin_file. on_fs (copy2 bin_file (artifact_dir @ [''bin'']))))),
                when_io (\<not> embed_data (config s))
                  (then_io (on_fs (mkdir (artifact_dir @ [''data''])))
                     (bind_io (foldM_io (ICUBuilder_data_paths s) (copy_data_from artifact_dir) False)
                        (\<lambda>data_found.
                           when_io (\<not> data_found) (print Warning ''Warning: No .dat files found'')))),
                on_fs (write_file (artifact_dir @ [''BUILD_INFO.txt''])
                         (Text (ICUBuilder_build_info E (config s)))),
                on_fs (make_zip zip_path artifact_dir),
                print Success (''Artifacts packaged: '' @ path_str zip_path)])
            (return_io True))"

definition ICUBuilder_data_verification :: "(unit, ICUBuilder) io" where
  \<comment> \<open>the block \<^verbatim>\<open># Data verification\<close>\<close>
  "ICUBuilder_data_verification =
     bind_io get_io (\<lambda>s.
       if embed_data (config s) then
         (let data_lib = build_dir s @ [''lib'', lib_prefix (config s) @ ''icudt.lib''] in
          bind_io (exists_io data_lib) (\<lambda>data_lib_exists.
            if data_lib_exists then
              then_io (stat_io data_lib)
                (print Info (''Data library: '' @ last data_lib @ '' - embedded data''))
            else print Warning ''Data library not found''))
       else print Info ''Data files should be in separate .dat files'')"

definition ICUBuilder_verify_build :: "(bool, ICUBuilder) io" where
  "ICUBuilder_verify_build =
     then_io (print Info ''Verifying build output...'')
       (bind_io get_io (\<lambda>s.
          let lib_dir = build_dir s @ [''lib''];
              include_dir = build_dir s @ [''include'', ''unicode'']
          in bind_io (exists_io lib_dir) (\<lambda>lib_dir_exists.
             if \<not> lib_dir_exists then
               then_io (print Failure (''Library directory not found: '' @ path_str lib_dir))
                 (return_io False)
             else
               bind_io (glob_io lib_dir ''.lib'') (\<lambda>lib_files.
                 if lib_files = [] then
                   then_io (print Failure ''No library files found'') (return_io False)
                 else
                   then_io (print Info ''Static libraries built:'')
                  (then_io (print_sizes lib_files)
                  (bind_io (exists_io include_dir) (\<lambda>include_dir_exists.
                     if include_dir_exists then
                       bind_io (glob_io include_dir ''.h'') (\<lambda>headers.
                         then_io (print Info (''Header files installed: ''
                                    @ show_nat (length headers) @ '' files''))
                        (then_io ICUBuilder_data_verification
                        (then_io (print Success ''Build verification completed'')
                           (return_io True))))
                     else
                       then_io (print Failure ''Headers not found'') (return_io False))))))))"

definition ICUBuilder_steps :: "env \<Rightarrow> (string \<times> (bool, ICUBuilder) io) list" where
  "ICUBuilder_steps E =
     [(''Download ICU source'', download_icu_source E),
      (''Prepare source'', prepare_source E),
      (''Configure build'', configure_build E),
      (''Build ICU'', build_icu E),
      (''Install ICU'', install_icu E),
      (''Package artifacts'', ICUBuilder_package_artifacts E),
      (''Verify build'', ICUBuilder_verify_build)]"

definition ICUBuilder_build :: "env \<Rightarrow> (bool, ICUBuilder) io" where
  "ICUBuilder_build E =
     bind_io get_io (\<lambda>s.
       then_io
         (seq_io
            [print Info (''Starting ICU '' @ icu_version (config s) @ '' build...''),
             print Info (''   Architecture: '' @ arch (config s)),
             print Info (''   Build Type: '' @ build_type (config s)),
             print Info (''   Data Packaging: ''
                           @ (if embed_data (config s) then ''Embedded'' else ''Separate'')),
             print Info []])
         (run_pipeline ''ICU build completed successfully!'' (ICUBuilder_steps E)))"

subsection \<open>\<^verbatim>\<open>ICUNativeBuilder\<close>: the project-file-driven steps\<close>

definition iterdir :: "path \<Rightarrow> filesys \<Rightarrow> (exn + path list) \<times> filesys" where
  "iterdir d F =
     (if blocked F d then (Inl PermissionError, F)
      else case node_at F d of
        None \<Rightarrow> (Inl FileNotFoundError, F)
      | Some (File x) \<Rightarrow> (Inl NotADirectoryError, F)
      | Some Dir \<Rightarrow>
          (if norm_path d \<in> set (unlistable F) then (Inl PermissionError, F)
           else (Inr (filter (\<lambda>p. p \<noteq> [] \<and> butlast p = norm_path d) (map fst (entries F))), F)))"

definition verify_visual_studio_solution :: "(bool, ICUNativeBuilder) io" where
  "verify_visual_studio_solution =
     then_io (print Info ''Verifying Visual Studio solution...'')
       (bind_io get_io (\<lambda>s.
          bind_io (exists_io (solution_path s)) (\<lambda>solution_exists.
            if \<not> solution_exists then
              then_io (print Failure (''Visual Studio solution not found at: ''
                                        @ path_str (solution_path s)))
             (then_io
                (let allinone_dir = source_dir s @ [''allinone''] in
                 bind_io (exists_io allinone_dir) (\<lambda>allinone_exists.
                   if allinone_exists then
                     then_io (print Info ''Available files in allinone directory:'')
                       (bind_io (on_fs (iterdir allinone_dir))
                          (\<lambda>files. for_io files (\<lambda>file. print Info (''  '' @ last file))))
                   else print Failure ''allinone directory does not exist''))
                (return_io False))
            else
              then_io (print Success (''Found Visual Studio solution: ''
                                        @ path_str (solution_path s)))
                (return_io True))))"

definition toolset_tag :: "string \<Rightarrow> string" where
  "toolset_tag v = ''<PlatformToolset>'' @ v @ ''</PlatformToolset>''"

definition rewrite_toolset :: "path \<Rightarrow> (bool, ICUNativeBuilder) io" where
  \<comment> \<open>the \<^verbatim>\<open>try\<close> block of \<^verbatim>\<open>update_visual_studio_toolset\<close>\<close>
  "rewrite_toolset props_file =
     bind_io (on_fs (\<lambda>F. (read_text props_file F, F))) (\<lambda>content.
       let upd141 = contains_str (toolset_tag ''v141'') content;
           content1 = (if upd141
                       then replace_str (toolset_tag ''v141'') (toolset_tag ''v143'') content
                       else content);
           upd140 = contains_str (toolset_tag ''v140'') content1;
           content2 = (if upd140
                       then replace_str (toolset_tag ''v140'') (toolset_tag ''v143'') content1
                       else content1);
           updated = (upd141 \<or> upd140)
       in then_io
            (if updated then
               then_io (on_fs (write_file props_file (Text content2)))
                 (print Success ''Updated toolset to v143 (Visual Studio 2022)'')
             else print Info ''Toolset already up to date or not found'')
            (return_io True))"

definition update_visual_studio_toolset :: "(bool, ICUNativeBuilder) io" where
  "update_visual_studio_toolset =
     then_io (print Info ''Updating project configuration for Visual Studio 2022...'')
       (bind_io get_io (\<lambda>s.
          let props_file = source_dir s @ [''allinone'', ''Build.Windows.ProjectConfiguration.props'']
          in bind_io (exists_io props_file) (\<lambda>props_exists.
             if \<not> props_exists then
               then_io (print Warning (''Warning: Could not find project configuration file: ''
                                         @ path_str props_file))
                 (return_io True)
             else
               try_io (rewrite_toolset props_file)
                 (\<lambda>e. then_io (print Warning (''Warning: Failed to update toolset: '' @ exn_name e))
                        (return_io True)))))"

definition show_int :: "int \<Rightarrow> string" where
  "show_int i = (if i < 0 then ''-'' @ show_nat (nat (- i)) else show_nat (nat i))"

definition join_sp :: "string list \<Rightarrow> string" where
  \<comment> \<open>\<^verbatim>\<open>' '.join(xs)\<close>\<close>
  "join_sp xs = (case xs of [] \<Rightarrow> [] | y # ys \<Rightarrow> y @ concat (map (\<lambda>x. '' '' @ x) ys))"

definition msbuild_args :: "ICUNativeBuilder \<Rightarrow> string list" where
  "msbuild_args s =
     [''msbuild'', path_str (solution_path s),
      ''/p:Configuration='' @ build_type (config s),
      ''/p:Platform='' @ arch (config s),
      ''/p:SkipUWP=true'',
      ''/p:UseDebugLibraries='' @ (if build_type (config s) = ''Debug'' then ''true'' else ''false''),
      ''/m'', ''/verbosity:normal'']"

definition report_msbuild_failure :: "string \<Rightarrow> proc_result \<Rightarrow> (bool, ICUNativeBuilder) io" where
  "report_msbuild_failure what result =
     then_io (print Failure (what @ '' failed with exit code '' @ show_int (returncode result)))
    (then_io (print Info (''STDOUT: '' @ stdout result))
    (then_io (print Info (''STDERR: '' @ stderr result))
       (return_io False)))"

definition build_icu_with_msbuild :: "env \<Rightarrow> (bool, ICUNativeBuilder) io" where
  "build_icu_with_msbuild E =
     bind_io get_io (\<lambda>s.
       then_io (print Info (''Building ICU with MSBuild ('' @ arch (config s) @ '' ''
                              @ build_type (config s) @ '')...''))
      (then_io (print Info (''Running: '' @ join_sp (msbuild_args s)))
         (try_io
            (bind_io (run E (MSBuild (msbuild_args s))) (\<lambda>result.
               if returncode result \<noteq> 0 then report_msbuild_failure ''Initial ICU build'' result
               else
                 then_io (print Success ''Initial ICU build completed successfully'')
                (then_io (print Info ''Building full ICU data library...'')
                   (bind_io (run E (MSBuild (msbuild_args s @ [''/target:MakeData'']))) (\<lambda>result.
                      if returncode result \<noteq> 0 then report_msbuild_failure ''ICU data build'' result
                      else then_io (print Success ''Full ICU data build completed successfully'')
                             (return_io True))))))
            (\<lambda>e. then_io (print Failure (''Build failed: '' @ exn_name e)) (return_io False)))))"

record artifacts =
  lib_files :: "path list"
  exe_files :: "path list"
  dat_files :: "path list"

definition possible_paths :: "ICUNativeBuilder \<Rightarrow> path list" where
  "possible_paths s =
     (let icu4c = workspace s @ [''icu-release-'' @ icu_tag (config s), ''icu4c''] in
      [icu4c @ [''bin64''], icu4c @ [''lib64''], icu4c @ [''bin''], icu4c @ [''lib''],
       source_dir s @ [''..'', ''..'', ''lib64''],
       source_dir s @ [''..'', ''..'', ''bin64'']])"

definition ICUNativeBuilder_data_paths :: "ICUNativeBuilder \<Rightarrow> path list" where
  "ICUNativeBuilder_data_paths s =
     (let icu4c = workspace s @ [''icu-release-'' @ icu_tag (config s), ''icu4c''] in
      [source_dir s @ [''data'', ''out''],
       source_dir s @ [''data'', ''out'', ''tmp''],
       icu4c @ [''data'', ''out''],
       icu4c @ [''data'']])"

definition scan_output_dir :: "path \<Rightarrow> artifacts \<Rightarrow> (artifacts, ICUNativeBuilder) io" where
  \<comment> \<open>one turn of \<^verbatim>\<open>for path in possible_paths\<close>\<close>
  "scan_output_dir p a =
     bind_io (exists_io p) (\<lambda>path_exists.
       if path_exists then
         then_io (print Info (''Checking directory: '' @ path_str p))
        (bind_io (glob_io p ''.lib'') (\<lambda>libs.
         then_io (when_io (libs \<noteq> [])
                    (print Info (''  Found '' @ show_nat (length libs) @ '' .lib files'')))
        (bind_io (glob_io p ''.exe'') (\<lambda>exes.
         then_io (when_io (exes \<noteq> [])
                    (print Info (''  Found '' @ show_nat (length exes) @ '' .exe files'')))
           (return_io (a\<lparr>lib_files := lib_files a @ libs,
                           exe_files := exe_files a @ exes\<rparr>))))))
       else return_io a)"

definition scan_data_dir :: "path \<Rightarrow> artifacts \<Rightarrow> (artifacts, ICUNativeBuilder) io" where
  \<comment> \<open>one turn of \<^verbatim>\<open>for data_path in data_paths\<close>\<close>
  "scan_data_dir p a =
     bind_io (exists_io p) (\<lambda>path_exists.
       if path_exists then
         bind_io (glob_io p ''.dat'') (\<lambda>dats.
           then_io (when_io (dats \<noteq> [])
                      (print Info (''Found '' @ show_nat (length dats) @ '' .dat files in: ''
                                     @ path_str p)))
             (return_io (a\<lparr>dat_files := dat_files a @ dats\<rparr>)))
       else return_io a)"

definition locate_in ::
  "path list \<Rightarrow> path list \<Rightarrow> (artifacts, ICUNativeBuilder) io" where
  \<comment> \<open>the body of \<^verbatim>\<open>locate_build_artifacts\<close> after its two path lists are built\<close>
  "locate_in outputs datas =
     then_io (print Info ''Locating build artifacts...'')
       (bind_io (foldM_io outputs scan_output_dir \<lparr>lib_files = [], exe_files = [], dat_files = []\<rparr>)
          (foldM_io datas scan_data_dir))"

definition locate_build_artifacts :: "(artifacts, ICUNativeBuilder) io" where
  "locate_build_artifacts =
     bind_io get_io (\<lambda>s. locate_in (possible_paths s) (ICUNativeBuilder_data_paths s))"

definition ICUNativeBuilder_build_info :: "env \<Rightarrow> BuildConfig_native \<Rightarrow> string" where
  "ICUNativeBuilder_build_info E c =
     ''ICU Version: '' @ icu_version c @ [CHR 0x0A]
     @ ''Architecture: '' @ arch c @ [CHR 0x0A]
     @ ''Build Type: '' @ build_type c @ [CHR 0x0A]
     @ ''Compiler: MSVC (Visual Studio 2022)'' @ [CHR 0x0A]
     @ ''Build Environment: Native Windows (MSBuild)'' @ [CHR 0x0A]
     @ ''Build Date: '' @ now E @ [CHR 0x0A]
     @ ''Static Libraries: Yes'' @ [CHR 0x0A]
     @ ''Shared Libraries: No'' @ [CHR 0x0A]
     @ ''Data Library: Complete (built with MakeData target)'' @ [CHR 0x0A]
     @ ''Data Packaging: Built-in DLL + .dat files'' @ [CHR 0x0A]"

definition ICUNativeBuilder_package_artifacts :: "env \<Rightarrow> (bool, ICUNativeBuilder) io" where
  "ICUNativeBuilder_package_artifacts E =
     then_io (print Info ''Packaging artifacts...'')
       (bind_io locate_build_artifacts (\<lambda>found.
          if lib_files found = [] then
            then_io (print Failure ''No .lib files found in any expected location'')
              (return_io False)
          else
            bind_io get_io (\<lambda>s.
              let artifact_dir = workspace s @ [artifact_name (config s)];
                  header_paths = [source_dir s @ [''common'', ''unicode''],
                                  source_dir s @ [''i18n'', ''unicode''],
                                  source_dir s @ [''io'', ''unicode'']];
                  unicode_include_dir = artifact_dir @ [''include'', ''unicode''];
                  zip_path = workspace s @ [artifact_name (config s) @ ''.zip'']
              in then_io
                   (seq_io
                      [if_exists artifact_dir (on_fs (rmtree artifact_dir)),
                       on_fs (mkdir artifact_dir),
                       on_fs (mkdir (artifact_dir @ [''lib''])),
                       on_fs (mkdir (artifact_dir @ [''include''])),
                       on_fs (mkdir (artifact_dir @ [''bin''])),
                       on_fs (mkdir (artifact_dir @ [''data''])),
                       print Info (''Copying '' @ show_nat (length (lib_files found))
                                     @ '' library files...''),
                       for_io (lib_files found)
                         (\<lambda>lib_file. then_io (on_fs (copy2 lib_file (artifact_dir @ [''lib''])))
                                      (then_io (stat_io lib_file)
                                         (print Info (''  '' @ last lib_file)))),
                       on_fs (mkdir unicode_include_dir),
                       for_io header_paths
                         (\<lambda>header_path.
                            if_exists header_path
                              (then_io (print Info (''Copying headers from: '' @ path_str header_path))
                                 (for_glob header_path ''.h''
                                    (\<lambda>header_file. on_fs (copy2 header_file unicode_include_dir))))),
                       when_io (exe_files found \<noteq> [])
                         (then_io (print Info (''Copying '' @ show_nat (length (exe_files found))
                                                 @ '' executable files...''))
                            (for_io (exe_files found)
                               (\<lambda>exe_file. on_fs (copy2 exe_file (artifact_dir @ [''bin'']))))),
                       (if dat_files found \<noteq> [] then
                          then_io (print Info (''Copying '' @ show_nat (length (dat_files found))
                                                 @ '' data files...''))
                            (for_io (dat_files found)
                               (\<lambda>dat_file. then_io (stat_io dat_file)
                                            (then_io (print Info (''  '' @ last dat_file))
                                               (on_fs (copy2 dat_file (artifact_dir @ [''data'']))))))
                        else print Warning ''Warning: No .dat files found - ICU data may be incomplete''),
                       on_fs (write_file (artifact_dir @ [''BUILD_INFO.txt''])
                                (Text (ICUNativeBuilder_build_info E (config s)))),
                       on_fs (make_zip zip_path artifact_dir),
                       print Success (''Artifacts packaged: '' @ path_str zip_path)])
                   (return_io True))))"

definition ICUNativeBuilder_data_check :: "(unit, ICUNativeBuilder) io" where
  \<comment> \<open>the block \<^verbatim>\<open># Check data files\<close>\<close>
  "ICUNativeBuilder_data_check =
     bind_io get_io (\<lambda>s.
       let data_dir = workspace s @ [artifact_name (config s), ''data''] in
       bind_io (exists_io data_dir) (\<lambda>data_dir_exists.
         when_io data_dir_exists
           (bind_io (glob_io data_dir ''.dat'') (\<lambda>dat_files.
              if dat_files \<noteq> [] then
                then_io (print Info ''ICU data files:'') (print_sizes dat_files)
              else print Warning ''Warning: No data files found''))))"

definition ICUNativeBuilder_verify_build :: "(bool, ICUNativeBuilder) io" where
  "ICUNativeBuilder_verify_build =
     then_io (print Info ''Verifying build output...'')
       (bind_io get_io (\<lambda>s.
          let artifact_dir = workspace s @ [artifact_name (config s)];
              lib_dir = artifact_dir @ [''lib''];
              include_dir = artifact_dir @ [''include'', ''unicode'']
          in bind_io (exists_io lib_dir) (\<lambda>lib_dir_exists.
             if \<not> lib_dir_exists then
               then_io (print Failure (''Library directory not found: '' @ path_str lib_dir))
                 (return_io False)
             else
               bind_io (glob_io lib_dir ''.lib'') (\<lambda>lib_files.
                 if lib_files = [] then
                   then_io (print Failure ''No library files found'') (return_io False)
                 else
                   then_io (print Info ''Static libraries built:'')
                  (then_io (print_sizes lib_files)
                  (bind_io (exists_io include_dir) (\<lambda>include_dir_exists.
                     if include_dir_exists then
                       bind_io (glob_io include_dir ''.h'') (\<lambda>headers.
                         then_io (print Info (''Header files installed: ''
                                    @ show_nat (length headers) @ '' files''))
                        (then_io ICUNativeBuilder_data_check
                        (then_io (print Success ''Build verification completed'')
                           (return_io True))))
                     else
                       then_io (print Failure ''Headers not found'') (return_io False))))))))"

definition ICUNativeBuilder_steps :: "env \<Rightarrow> (string \<times> (bool, ICUNativeBuilder) io) list" where
  "ICUNativeBuilder_steps E =
     [(''Download ICU source'', download_icu_source E),
      (''Verify Visual Studio solution'', verify_visual_studio_solution),
      (''Update Visual Studio toolset'', update_visual_studio_toolset),
      (''Build ICU with MSBuild'', build_icu_with_msbuild E),
      (''Package artifacts'', ICUNativeBuilder_package_artifacts E),
      (''Verify build'', ICUNativeBuilder_verify_build)]"

definition ICUNativeBuilder_build :: "env \<Rightarrow> (bool, ICUNativeBuilder) io" where
  "ICUNativeBuilder_build E =
     bind_io get_io (\<lambda>s.
       then_io
         (seq_io
            [print Info (''Starting ICU '' @ icu_version (config s) @ '' native MSVC build...''),
             print Info (''   Architecture: '' @ arch (config s)),
             print Info (''   Build Type: '' @ build_type (config s)),
             print Info []])
         (run_pipeline ''ICU native MSVC build completed successfully!'' (ICUNativeBuilder_steps E)))"

subsection \<open>\<^verbatim>\<open>main\<close>: the command line\<close>

text \<open>
  \<^verbatim>\<open>argparse\<close> is a library; what \<^verbatim>\<open>main\<close> asks of it is modelled here. An option is
  given by its full name or by a prefix of it that fits one option only, with its value
  in the next token or after \<open>=\<close>. A value outside the \<^verbatim>\<open>choices\<close> of its option, a
  missing value, or a value given to a flag ends the run with status 2 at once; help
  ends it with status 0; tokens that are no option of the parser are reported, with
  status 2, after all tokens have been read. The separator \<^verbatim>\<open>--\<close> counts as such a token.
\<close>

datatype action = Store "string list option" | StoreTrue | Help

type_synonym optspec = "string \<times> action"

type_synonym namespace = "(string \<times> string option) list"

definition match_option :: "optspec list \<Rightarrow> string \<Rightarrow> optspec list" where
  "match_option specs name =
     (case filter (\<lambda>(n, a). n = name) specs of
        [] \<Rightarrow> (if starts_with ''--'' name \<and> name \<noteq> ''--''
               then filter (\<lambda>(n, a). starts_with name n) specs else [])
      | exact \<Rightarrow> exact)"

definition is_digit :: "char \<Rightarrow> bool" where
  "is_digit c = (c \<in> set ''0123456789'')"

definition negative_number :: "string \<Rightarrow> bool" where
  \<comment> \<open>\<^verbatim>\<open>^-\d+$|^-\d*\.\d+$\<close>\<close>
  "negative_number t =
     (case t of
        [] \<Rightarrow> False
      | c # r \<Rightarrow>
          c = CHR ''-'' \<and>
          ((r \<noteq> [] \<and> list_all is_digit r) \<or>
           (let a = takeWhile is_digit r; b = drop (length a) r
            in b \<noteq> [] \<and> hd b = CHR ''.'' \<and> tl b \<noteq> [] \<and> list_all is_digit (tl b))))"

definition option_like :: "optspec list \<Rightarrow> string \<Rightarrow> bool" where
  \<comment> \<open>a token that cannot be the value of an option\<close>
  "option_like specs t =
     (t \<noteq> [] \<and> hd t = CHR ''-'' \<and> length t \<noteq> 1 \<and>
      (match_option specs (takeWhile (\<lambda>c. c \<noteq> CHR ''='') t) \<noteq> []
       \<or> (\<not> negative_number t \<and> CHR '' '' \<notin> set t)))"

definition check_choice :: "string list option \<Rightarrow> string \<Rightarrow> bool" where
  "check_choice choices v = (case choices of None \<Rightarrow> True | Some cs \<Rightarrow> v \<in> set cs)"

fun parse_tokens :: "optspec list \<Rightarrow> string list \<Rightarrow> namespace \<Rightarrow> bool \<Rightarrow> int + namespace" where
  "parse_tokens specs [] ns extras = (if extras then Inl 2 else Inr ns)"
| "parse_tokens specs (tok # rest) ns extras =
     (let name = takeWhile (\<lambda>c. c \<noteq> CHR ''='') tok;
          explicit = (if name = tok then None else Some (drop (length name + 1) tok))
      in if \<not> option_like specs tok then parse_tokens specs rest ns True
         else case match_option specs name of
                [(n, Help)] \<Rightarrow> (if explicit = None then Inl 0 else Inl 2)
              | [(n, StoreTrue)] \<Rightarrow>
                  (if explicit = None then parse_tokens specs rest (ns @ [(n, None)]) extras
                   else Inl 2)
              | [(n, Store choices)] \<Rightarrow>
                  (case explicit of
                     Some v \<Rightarrow>
                       (if check_choice choices v
                        then parse_tokens specs rest (ns @ [(n, Some v)]) extras else Inl 2)
                   | None \<Rightarrow>
                       (case rest of
                          [] \<Rightarrow> Inl 2
                        | v # rest' \<Rightarrow>
                            (if option_like specs v then Inl 2
                             else if check_choice choices v
                             then parse_tokens specs rest' (ns @ [(n, Some v)]) extras
                             else Inl 2)))
              | [] \<Rightarrow> parse_tokens specs rest ns True
              | _ \<Rightarrow> Inl 2)"

definition parse_args :: "optspec list \<Rightarrow> string list \<Rightarrow> int + namespace" where
  "parse_args specs argv = parse_tokens specs argv [] False"

definition ns_value :: "namespace \<Rightarrow> string \<Rightarrow> string \<Rightarrow> string" where
  \<comment> \<open>the last value given, or the default\<close>
  "ns_value ns n dflt =
     (case filter (\<lambda>(m, v). m = n \<and> v \<noteq> None) ns of
        [] \<Rightarrow> dflt
      | vs \<Rightarrow> (case snd (last vs) of Some v \<Rightarrow> v | None \<Rightarrow> dflt))"

definition ns_flag :: "namespace \<Rightarrow> string \<Rightarrow> bool" where
  "ns_flag ns n = list_ex (\<lambda>(m, v). m = n) ns"

definition arch_choices :: "string list" where
  "arch_choices = [''x64'', ''x86'']"

definition build_type_choices :: "string list" where
  "build_type_choices = [''Release'', ''Debug'']"

definition ICUBuilder_options :: "optspec list" where
  "ICUBuilder_options =
     [(''-h'', Help), (''--help'', Help),
      (''--arch'', Store (Some arch_choices)),
      (''--build-type'', Store (Some build_type_choices)),
      (''--embed-data'', StoreTrue),
      (''--version'', Store None),
      (''--tag'', Store None)]"

definition ICUNativeBuilder_options :: "optspec list" where
  "ICUNativeBuilder_options =
     [(''-h'', Help), (''--help'', Help),
      (''--arch'', Store (Some arch_choices)),
      (''--build-type'', Store (Some build_type_choices)),
      (''--version'', Store None),
      (''--tag'', Store None)]"

definition ICUBuilder_main_config :: "string list \<Rightarrow> int + BuildConfig" where
  \<comment> \<open>\<^verbatim>\<open>args = parser.parse_args(); config = BuildConfig(arch=args.arch, ...)\<close>\<close>
  "ICUBuilder_main_config argv =
     (case parse_args ICUBuilder_options argv of
        Inl status \<Rightarrow> Inl status
      | Inr ns \<Rightarrow>
          Inr (BuildConfig_init (ns_value ns ''--arch'' ''x64'')
                 (ns_value ns ''--build-type'' ''Release'')
                 (ns_flag ns ''--embed-data'')
                 (ns_value ns ''--version'' ''77.1'')
                 (ns_value ns ''--tag'' ''release-77-1'')))"

definition ICUNativeBuilder_main_config :: "string list \<Rightarrow> int + BuildConfig_native" where
  "ICUNativeBuilder_main_config argv =
     (case parse_args ICUNativeBuilder_options argv of
        Inl status \<Rightarrow> Inl status
      | Inr ns \<Rightarrow>
          Inr (BuildConfig_native_init (ns_value ns ''--arch'' ''x64'')
                 (ns_value ns ''--build-type'' ''Release'')
                 (ns_value ns ''--version'' ''77.1'')
                 (ns_value ns ''--tag'' ''release-77-1'')))"

text \<open>
  The outcome of \<^verbatim>\<open>main\<close> is the status given to \<^verbatim>\<open>sys.exit\<close>, or the exception that
  left \<^verbatim>\<open>builder.build()\<close>; \<open>None\<close> for the builder when the parser ended the run.
\<close>

definition ICUBuilder_main ::
  "env \<Rightarrow> path \<Rightarrow> filesys \<Rightarrow> string list \<Rightarrow> (exn + int) \<times> ICUBuilder option" where
  "ICUBuilder_main E cwd F argv =
     (case ICUBuilder_main_config argv of
        Inl status \<Rightarrow> (Inr status, None)
      | Inr c \<Rightarrow>
          (case ICUBuilder_build E (ICUBuilder_init c cwd F) of
             (Inl e, s) \<Rightarrow> (Inl e, Some s)
           | (Inr success, s) \<Rightarrow> (Inr (if success then 0 else 1), Some s)))"

definition ICUNativeBuilder_main ::
  "env \<Rightarrow> path \<Rightarrow> filesys \<Rightarrow> string list \<Rightarrow> (exn + int) \<times> ICUNativeBuilder option" where
  "ICUNativeBuilder_main E cwd F argv =
     (case ICUNativeBuilder_main_config argv of
        Inl status \<Rightarrow> (Inr status, None)
      | Inr c \<Rightarrow>
          (case ICUNativeBuilder_build E (ICUNativeBuilder_init c cwd F) of
             (Inl e, s) \<Rightarrow> (Inl e, Some s)
           | (Inr success, s) \<Rightarrow> (Inr (if success then 0 else 1), Some s)))"

subsection \<open>Notions used to state the properties\<close>

text \<open>
  A run in which every step returns \<open>True\<close>: each step starts in the state its
  predecessor left, after the banner and the blank line the loop prints.
\<close>

fun steps_succeed ::
  "(string \<times> (bool, ('c, 'z) builder_scheme) io) list \<Rightarrow> ('c, 'z) builder_scheme \<Rightarrow> bool" where
  "steps_succeed [] s = True"
| "steps_succeed ((step_name, step_func) # rest) s =
     (case step_func (snd (print_banner step_name s)) of
        (Inr True, s') \<Rightarrow> steps_succeed rest (snd (print Info [] s'))
      | _ \<Rightarrow> False)"

text \<open>The first refusal met when the files of a list are asked for their size in turn.\<close>

fun first_stat_error :: "filesys \<Rightarrow> path list \<Rightarrow> exn option" where
  "first_stat_error F [] = None"
| "first_stat_error F (f # rest) =
     (case stat F f of Inl e \<Rightarrow> Some e | Inr n \<Rightarrow> first_stat_error F rest)"

text \<open>
  The verification decision both strategies are compared with: the library directory
  exists, it holds a library, every library answers for its size, the header directory
  exists; a refusal met on the way is the outcome.
\<close>

definition verify_decision :: "filesys \<Rightarrow> path \<Rightarrow> exn + bool" where
  "verify_decision F root =
     (case exists_path F (root @ [''lib'']) of
        Inl e \<Rightarrow> Inl e
      | Inr False \<Rightarrow> Inr False
      | Inr True \<Rightarrow>
          (case glob F (root @ [''lib'']) ''.lib'' of
             Inl e \<Rightarrow> Inl e
           | Inr libs \<Rightarrow>
               (if libs = [] then Inr False
                else case first_stat_error F libs of
                       Some e \<Rightarrow> Inl e
                     | None \<Rightarrow> exists_path F (root @ [''include'', ''unicode'']))))"

definition failures :: "event list \<Rightarrow> event list" where
  "failures evs = filter (\<lambda>e. case e of Print Failure m \<Rightarrow> True | _ \<Rightarrow> False) evs"

definition warnings :: "event list \<Rightarrow> event list" where
  "warnings evs = filter (\<lambda>e. case e of Print Warning m \<Rightarrow> True | _ \<Rightarrow> False) evs"

definition http_gets :: "event list \<Rightarrow> string list" where
  "http_gets evs = concat (map (\<lambda>e. case e of HttpGet u \<Rightarrow> [u] | _ \<Rightarrow> []) evs)"

definition runs :: "event list \<Rightarrow> command list" where
  "runs evs = concat (map (\<lambda>e. case e of Run c \<Rightarrow> [c] | _ \<Rightarrow> []) evs)"

text \<open>An action that leaves the builder's \<open>config\<close> as it found it, however it ends.\<close>

definition keeps_config :: "('a, ('c, 'z) builder_scheme) io \<Rightarrow> bool" where
  "keeps_config m = (\<forall>s. config (snd (m s)) = config s)"

text \<open>Every value the namespace holds for option \<open>n\<close> is one of \<open>cs\<close>.\<close>

definition choices_respected :: "string \<Rightarrow> string list \<Rightarrow> namespace \<Rightarrow> bool" where
  "choices_respected n cs ns =
     list_all (\<lambda>(m, v). m \<noteq> n \<or> (case v of None \<Rightarrow> True | Some x \<Rightarrow> x \<in> set cs)) ns"

subsection \<open>Example inputs\<close>

definition ex_env :: env where
  \<comment> \<open>every variable set, no network, every external command exits with 0\<close>
  "ex_env = \<lparr>environ = (\<lambda>v. Some ''set''),
             http_get = (\<lambda>url. Inl ConnectionError),
             run_process = (\<lambda>cmd F. Inr (\<lparr>returncode = 0, stdout = [], stderr = []\<rparr>, F)),
             now = ''2025-01-01 00:00:00 UTC''\<rparr>"


definition ex_config :: BuildConfig where
  "ex_config = BuildConfig_init ''x64'' ''Release'' False ''77.1'' ''release-77-1''"

definition ex_embedded_config :: BuildConfig where
  "ex_embedded_config = BuildConfig_init ''x64'' ''Release'' True ''77.1'' ''release-77-1''"

definition ex_native_config :: BuildConfig_native where
  "ex_native_config = BuildConfig_native_init ''x64'' ''Release'' ''77.1'' ''release-77-1''"

definition ex_dirs :: "path list \<Rightarrow> (path \<times> node) list" where
  "ex_dirs ps = map (\<lambda>p. (p, Dir)) ps"

definition open_fs :: "(path \<times> node) list \<Rightarrow> filesys" where
  \<comment> \<open>a filesystem on which nothing is refused\<close>
  "open_fs es = \<lparr>entries = es, denied = [], unsearchable = [], unlistable = []\<rparr>"

definition ex_root :: "(path \<times> node) list" where
  "ex_root = ex_dirs [[''C:''], [''C:'', ''w''], [''D:''], [''D:'', ''icu-build'']]"

definition st_stub :: "unit builder" where
  "st_stub = \<lparr>config = (), workspace = [''C:'', ''w''], source_dir = [],
              fs = open_fs ex_root, out = []\<rparr>"

definition st_fresh_native :: ICUNativeBuilder where
  \<comment> \<open>a workspace with nothing in it\<close>
  "st_fresh_native = ICUNativeBuilder_init ex_native_config [''C:'', ''w''] (open_fs ex_root)"

definition st_fresh_configure :: ICUBuilder where
  "st_fresh_configure = ICUBuilder_init ex_config [''C:'', ''w''] (open_fs ex_root)"

definition packaged_tree :: "path \<Rightarrow> (path \<times> node) list" where
  \<comment> \<open>a packaged directory with one library and an empty header directory\<close>
  "packaged_tree root =
     ex_dirs [root, root @ [''lib''], root @ [''include''], root @ [''include'', ''unicode''],
              root @ [''bin''], root @ [''data'']]
     @ [(root @ [''lib'', ''icuuc.lib''], File (Text ''lib''))]"

definition lib_only_tree :: "path \<Rightarrow> (path \<times> node) list" where
  \<comment> \<open>one library and no header directory\<close>
  "lib_only_tree root =
     ex_dirs [root, root @ [''lib'']] @ [(root @ [''lib'', ''icuuc.lib''], File (Text ''lib''))]"

definition source_tree :: "(path \<times> node) list" where
  \<comment> \<open>an unpacked source tree with its solution file and one built library\<close>
  "source_tree =
     (let icu = [''C:'', ''w'', ''icu-release-release-77-1''] in
      ex_dirs [icu, icu @ [''icu4c''], icu @ [''icu4c'', ''source''],
               icu @ [''icu4c'', ''source'', ''allinone''], icu @ [''icu4c'', ''lib64'']]
      @ [(icu @ [''icu4c'', ''source'', ''allinone'', ''allinone.sln''], File (Text ''sln'')),
         (icu @ [''icu4c'', ''lib64'', ''icuuc.lib''], File (Text ''lib''))])"

definition fs_packaged_only :: filesys where
  \<comment> \<open>both packaged directories, and no install prefix\<close>
  "fs_packaged_only =
     open_fs (ex_root @ packaged_tree [''C:'', ''w'', ''icu-x64-Release'']
                @ packaged_tree [''C:'', ''w'', ''icu-x64-Release-separate-data''])"

definition st_packaged_native :: ICUNativeBuilder where
  "st_packaged_native = ICUNativeBuilder_init ex_native_config [''C:'', ''w''] fs_packaged_only"

definition st_packaged_configure :: ICUBuilder where
  "st_packaged_configure = ICUBuilder_init ex_config [''C:'', ''w''] fs_packaged_only"

definition st_installed_embedded :: ICUBuilder where
  \<comment> \<open>an install prefix of an embedded-data build without the data library\<close>
  "st_installed_embedded =
     ICUBuilder_init ex_embedded_config [''C:'', ''w'']
       (open_fs (ex_root @ packaged_tree [''D:'', ''icu-build'', ''x64-Release'']))"

definition st_installed_separate :: ICUBuilder where
  \<comment> \<open>an install prefix of a separate-data build; no \<^verbatim>\<open>.dat\<close> file anywhere\<close>
  "st_installed_separate =
     ICUBuilder_init ex_config [''C:'', ''w'']
       (open_fs (ex_root @ packaged_tree [''D:'', ''icu-build'', ''x64-Release'']))"

definition fs_lib_only :: filesys where
  "fs_lib_only =
     open_fs (ex_root @ lib_only_tree [''D:'', ''icu-build'', ''x64-Release'']
                @ lib_only_tree [''C:'', ''w'', ''icu-x64-Release''])"

definition st_lib_only_configure :: ICUBuilder where
  "st_lib_only_configure = ICUBuilder_init ex_config [''C:'', ''w''] fs_lib_only"

definition st_lib_only_native :: ICUNativeBuilder where
  "st_lib_only_native = ICUNativeBuilder_init ex_native_config [''C:'', ''w''] fs_lib_only"

definition st_empty_install :: ICUBuilder where
  \<comment> \<open>an install prefix whose \<^verbatim>\<open>lib\<close> directory holds no library\<close>
  "st_empty_install =
     ICUBuilder_init ex_config [''C:'', ''w'']
       (open_fs (ex_root @ ex_dirs [[''D:'', ''icu-build'', ''x64-Release''],
                                     [''D:'', ''icu-build'', ''x64-Release'', ''lib'']]))"




definition fs_closed_release :: filesys where
  \<comment> \<open>the release directory is there and cannot be traversed\<close>
  "fs_closed_release =
     (open_fs (ex_root @ ex_dirs [[''C:'', ''w'', ''icu-release-release-77-1'']]))
     \<lparr>unsearchable := [[''C:'', ''w'', ''icu-release-release-77-1'']]\<rparr>"

definition st_closed_native :: ICUNativeBuilder where
  "st_closed_native = ICUNativeBuilder_init ex_native_config [''C:'', ''w''] fs_closed_release"



definition st_lib_headers_native :: ICUNativeBuilder where
  \<comment> \<open>a packaged directory with a library and a header directory, and no data directory\<close>
  "st_lib_headers_native =
     (let root = [''C:'', ''w'', ''icu-x64-Release''] in
      ICUNativeBuilder_init ex_native_config [''C:'', ''w'']
        (open_fs (ex_root @ lib_only_tree root
                    @ ex_dirs [root @ [''include''], root @ [''include'', ''unicode'']])))"

definition st_closed_lib_native :: ICUNativeBuilder where
  \<comment> \<open>a packaged directory whose \<^verbatim>\<open>lib\<close> directory can be listed and not traversed\<close>
  "st_closed_lib_native =
     ICUNativeBuilder_init ex_native_config [''C:'', ''w'']
       ((open_fs (ex_root @ packaged_tree [''C:'', ''w'', ''icu-x64-Release'']))
        \<lparr>unsearchable := [[''C:'', ''w'', ''icu-x64-Release'', ''lib'']]\<rparr>)"

definition st_source_present :: ICUBuilder where
  "st_source_present = ICUBuilder_init ex_config [''C:'', ''w''] (open_fs (ex_root @ source_tree))"

section \<open>Properties\<close>

subsection \<open>The state monad\<close>

lemma print_eq: "print lv m s = (Inr (), s\<lparr>out := out s @ [Print lv m]\<rparr>)"
  by (simp add: print_def emit_def)

lemma then_io_print: "then_io (print lv m) k s = k (s\<lparr>out := out s @ [Print lv m]\<rparr>)"
  by (simp add: then_io_def bind_io_def print_eq)

lemma bind_get: "bind_io get_io f s = f s s"
  by (simp add: bind_io_def get_io_def)

lemma bind_return: "bind_io (return_io a) f s = f a s"
  by (simp add: bind_io_def return_io_def)

lemma when_print:
  "when_io b (print lv m) s = (Inr (), s\<lparr>out := out s @ (if b then [Print lv m] else [])\<rparr>)"
  by (simp add: when_io_def print_eq return_io_def)

lemma then_when_print:
  "then_io (when_io b (print lv m)) k s =
     k (s\<lparr>out := out s @ (if b then [Print lv m] else [])\<rparr>)"
  by (simp add: then_io_def bind_io_def when_print)

lemma bind_exists_io:
  "bind_io (exists_io p) k s =
     (case exists_path (fs s) p of Inl e \<Rightarrow> (Inl e, s) | Inr b \<Rightarrow> k b s)"
  by (simp add: bind_io_def exists_io_def ask_fs_def split: sum.splits)

lemma bind_glob_io:
  "bind_io (glob_io d ext) k s =
     (case glob (fs s) d ext of Inl e \<Rightarrow> (Inl e, s) | Inr files \<Rightarrow> k files s)"
  by (simp add: bind_io_def glob_io_def ask_fs_def split: sum.splits)

lemma then_stat_io:
  "then_io (stat_io p) k s = (case stat (fs s) p of Inl e \<Rightarrow> (Inl e, s) | Inr n \<Rightarrow> k s)"
  by (simp add: then_io_def bind_io_def stat_io_def ask_fs_def split: sum.splits)

lemma then_return_True: "then_io m (return_io True) s = (Inr b, s') \<Longrightarrow> b"
  by (auto simp: then_io_def bind_io_def return_io_def split: prod.splits sum.splits)

lemma bind_then_return_True:
  "bind_io m (\<lambda>c. then_io (k c) (return_io True)) s = (Inr b, s') \<Longrightarrow> b"
  by (auto simp: bind_io_def split: prod.splits sum.splits dest: then_return_True)

lemma then_then_True: "then_io m k s = (Inr b, s') \<Longrightarrow> (\<And>t t'. k t = (Inr b, t') \<Longrightarrow> b) \<Longrightarrow> b"
  by (auto simp: then_io_def bind_io_def split: prod.splits sum.splits)

lemma try_io_True:
  assumes "\<And>b s'. m s = (Inr b, s') \<Longrightarrow> b"
    and "\<And>e s'. fst (h e s') = Inr True"
  shows "fst (try_io m h s) = Inr True"
proof (cases "m s")
  case (Pair r s')
  show ?thesis
  proof (cases r)
    case (Inl e)
    with Pair assms(2) show ?thesis by (simp add: try_io_def)
  next
    case (Inr b)
    with Pair assms(1) have b by blast
    with Pair Inr show ?thesis by (simp add: try_io_def)
  qed
qed

lemma foldM_missing:
  assumes "\<And>p a. p \<in> set ps \<Longrightarrow> body p a s = (Inr a, s)"
  shows "foldM_io ps body a s = (Inr a, s)"
  using assms by (induction ps) (simp_all add: return_io_def bind_io_def)

lemma print_sizes_Nil: "print_sizes [] s = (Inr (), s)"
  by (simp add: print_sizes_def return_io_def)

lemma print_sizes_Cons:
  "print_sizes (f # files) s =
     (case stat (fs s) f of
        Inl e \<Rightarrow> (Inl e, s)
      | Inr n \<Rightarrow> print_sizes files (s\<lparr>out := out s @ [Print Info (''  '' @ last f)]\<rparr>))"
proof -
  have "print_sizes (f # files) s =
          then_io (stat_io f) (then_io (print Info (''  '' @ last f)) (print_sizes files)) s"
    by (simp add: print_sizes_def then_io_def bind_io_def split: prod.splits sum.splits)
  then show ?thesis by (simp add: then_stat_io then_io_print split: sum.splits)
qed

lemma print_sizes_ok:
  "first_stat_error (fs s) files = None \<Longrightarrow>
   print_sizes files s =
     (Inr (), s\<lparr>out := out s @ map (\<lambda>f. Print Info (''  '' @ last f)) files\<rparr>)"
proof (induction files arbitrary: s)
  case Nil
  then show ?case by (simp add: print_sizes_Nil)
next
  case (Cons f files)
  from Cons.prems obtain n where n: "stat (fs s) f = Inr n"
    and r: "first_stat_error (fs s) files = None"
    by (auto split: sum.splits)
  have "print_sizes files (s\<lparr>out := out s @ [Print Info (''  '' @ last f)]\<rparr>) =
          (Inr (), s\<lparr>out := out s @ [Print Info (''  '' @ last f)]\<rparr>
             \<lparr>out := out (s\<lparr>out := out s @ [Print Info (''  '' @ last f)]\<rparr>)
                      @ map (\<lambda>f. Print Info (''  '' @ last f)) files\<rparr>)"
    by (rule Cons.IH) (simp add: r)
  then show ?case by (simp add: print_sizes_Cons n)
qed

lemma print_sizes_error:
  "first_stat_error (fs s) files = Some e \<Longrightarrow> fst (print_sizes files s) = Inl e"
proof (induction files arbitrary: s)
  case Nil
  then show ?case by simp
next
  case (Cons f files)
  show ?case
  proof (cases "stat (fs s) f")
    case (Inl e')
    with Cons.prems show ?thesis by (simp add: print_sizes_Cons)
  next
    case (Inr n)
    with Cons.prems have "first_stat_error (fs s) files = Some e" by simp
    then have "fst (print_sizes files (s\<lparr>out := out s @ [Print Info (''  '' @ last f)]\<rparr>)) = Inl e"
      by (intro Cons.IH) simp
    with Inr show ?thesis by (simp add: print_sizes_Cons)
  qed
qed

lemma then_print_sizes_ok:
  "first_stat_error (fs s) files = None \<Longrightarrow>
   then_io (print_sizes files) k s =
     k (s\<lparr>out := out s @ map (\<lambda>f. Print Info (''  '' @ last f)) files\<rparr>)"
  by (simp add: then_io_def bind_io_def print_sizes_ok)

lemma then_print_sizes_error:
  "first_stat_error (fs s) files = Some e \<Longrightarrow> fst (then_io (print_sizes files) k s) = Inl e"
proof -
  assume "first_stat_error (fs s) files = Some e"
  then have "fst (print_sizes files s) = Inl e" by (rule print_sizes_error)
  then show ?thesis
    by (cases "print_sizes files s") (simp add: then_io_def bind_io_def)
qed

lemma exists_then_glob:
  "exists_path F p = Inr b \<Longrightarrow> \<exists>files. glob F p ext = Inr files"
  by (auto simp: exists_path_def glob_def split: if_splits)

subsection \<open>The pipeline halts at the first failing step\<close>

lemma print_banner_eq: "print_banner n s = (Inr (), snd (print_banner n s))"
  by (simp add: print_banner_def then_io_def bind_io_def print_def emit_def)

lemma run_steps_Nil: "run_steps [] s = (Inr True, s)"
  by (simp add: return_io_def)

lemma run_steps_Cons:
  "run_steps ((n, f) # rest) s =
     (case f (snd (print_banner n s)) of
        (Inl e, s') \<Rightarrow> (Inl e, s')
      | (Inr ok, s') \<Rightarrow>
          (if ok then run_steps rest (s'\<lparr>out := out s' @ [Print Info []]\<rparr>)
           else (Inr False, s'\<lparr>out := out s' @ [Print Failure (''Build failed at step: '' @ n)]\<rparr>)))"
  apply (simp add: then_io_def bind_io_def)
  apply (subst print_banner_eq)
  apply (simp add: print_eq return_io_def bind_io_def then_io_def split: prod.splits sum.splits)
  done

declare run_steps.simps [simp del]

lemma run_steps_append:
  "run_steps pre s = (Inr True, s1) \<Longrightarrow> run_steps (pre @ post) s = run_steps post s1"
proof (induction pre arbitrary: s)
  case Nil
  then show ?case by (simp add: run_steps_Nil)
next
  case (Cons a pre)
  obtain n f where a: "a = (n, f)" by (cases a)
  from Cons.prems show ?case
    unfolding a append_Cons run_steps_Cons
    by (auto split: prod.splits sum.splits if_splits intro: Cons.IH)
qed

lemma steps_succeed_run:
  "steps_succeed steps s \<Longrightarrow> fst (run_steps steps s) = Inr True"
proof (induction steps arbitrary: s)
  case Nil
  then show ?case by (simp add: run_steps_Nil)
next
  case (Cons a steps)
  obtain n f where a: "a = (n, f)" by (cases a)
  from Cons.prems show ?case
    unfolding a run_steps_Cons steps_succeed.simps
    by (auto simp: print_eq split: prod.splits sum.splits if_splits bool.splits intro: Cons.IH)
qed

text \<open>
  Claim C1. Let the steps before step \<open>k\<close> all return \<open>True\<close>, leaving the state \<open>s1\<close>,
  and let step \<open>k\<close>, named \<open>step_name\<close>, return \<open>False\<close> in the state \<open>s2\<close>. Then the run
  returns \<open>False\<close>, and its final state is \<open>s2\<close> with the one line
  \<^verbatim>\<open>Build failed at step: <step_name>\<close> added: whatever steps \<open>post\<close> follow, none of
  them has acted. If every step returns \<open>True\<close>, the run returns \<open>True\<close> and its last
  line is the completion message. \<^verbatim>\<open>ICUBuilder.build\<close> and \<^verbatim>\<open>ICUNativeBuilder.build\<close> are
  \<open>run_pipeline\<close> on their step lists.
\<close>

theorem pipeline_halts_on_first_failure:
  "(run_steps pre s = (Inr True, s1) \<and>
    step_func (snd (print_banner step_name s1)) = (Inr False, s2) \<longrightarrow>
      run_pipeline done_msg (pre @ (step_name, step_func) # post) s =
        (Inr False, s2\<lparr>out := out s2 @ [Print Failure (''Build failed at step: '' @ step_name)]\<rparr>))
   \<and> (steps_succeed steps s \<longrightarrow>
        fst (run_pipeline done_msg steps s) = Inr True \<and>
        last (out (snd (run_pipeline done_msg steps s))) = Print Success done_msg)"
proof (intro conjI impI)
  assume h: "run_steps pre s = (Inr True, s1) \<and>
    step_func (snd (print_banner step_name s1)) = (Inr False, s2)"
  then have "run_steps (pre @ (step_name, step_func) # post) s =
      (Inr False, s2\<lparr>out := out s2 @ [Print Failure (''Build failed at step: '' @ step_name)]\<rparr>)"
    by (simp add: run_steps_append run_steps_Cons)
  then show "run_pipeline done_msg (pre @ (step_name, step_func) # post) s =
        (Inr False, s2\<lparr>out := out s2 @ [Print Failure (''Build failed at step: '' @ step_name)]\<rparr>)"
    by (simp add: run_pipeline_def bind_io_def return_io_def)
next
  assume "steps_succeed steps s"
  then have r: "fst (run_steps steps s) = Inr True" by (rule steps_succeed_run)
  then obtain s' where "run_steps steps s = (Inr True, s')" by (cases "run_steps steps s") auto
  then show "fst (run_pipeline done_msg steps s) = Inr True"
    "last (out (snd (run_pipeline done_msg steps s))) = Print Success done_msg"
    by (simp_all add: run_pipeline_def bind_io_def then_io_def return_io_def print_eq)
qed

theorem pipeline_halts_on_first_failure_witness:
  "run_steps [(''fetch'', return_io True)] st_stub =
     (Inr True, st_stub\<lparr>out := [Print Info (replicate 50 (CHR ''='')), Print Info ''fetch'',
                                 Print Info (replicate 50 (CHR ''='')), Print Info []]\<rparr>)
   \<and> fst (run_pipeline ''done'' ([(''fetch'', return_io True)] @ (''compile'', return_io False)
             # [(''package'', raise_io OSError)]) st_stub) = Inr False
   \<and> last (out (snd (run_pipeline ''done'' ([(''fetch'', return_io True)]
             @ (''compile'', return_io False) # [(''package'', raise_io OSError)]) st_stub)))
       = Print Failure ''Build failed at step: compile''
   \<and> steps_succeed [(''fetch'', return_io True), (''verify'', return_io True)] st_stub
   \<and> fst (run_pipeline ''done'' [(''fetch'', return_io True), (''verify'', return_io True)] st_stub)
       = Inr True"
proof -
  let ?s1 = "st_stub\<lparr>out := [Print Info (replicate 50 (CHR ''='')), Print Info ''fetch'',
                             Print Info (replicate 50 (CHR ''='')), Print Info []]\<rparr>"
  have a: "run_steps [(''fetch'', return_io True)] st_stub = (Inr True, ?s1)"
    by (simp add: run_steps.simps st_stub_def then_io_def bind_io_def return_io_def print_def
          emit_def print_banner_def)
  have b: "return_io False (snd (print_banner ''compile'' ?s1)) =
             (Inr False, snd (print_banner ''compile'' ?s1))"
    by (simp add: return_io_def)
  have c: "steps_succeed [(''fetch'', return_io True), (''verify'', return_io True)] st_stub"
    by (simp add: return_io_def)
  from pipeline_halts_on_first_failure [of "[(''fetch'', return_io True)]" st_stub ?s1
      "return_io False" "''compile''" "snd (print_banner ''compile'' ?s1)" "''done''"
      "[(''package'', raise_io OSError)]"
      "[(''fetch'', return_io True), (''verify'', return_io True)]"]
    a b c
  show ?thesis by simp
qed

subsection \<open>The toolset update\<close>

lemma rewrite_toolset_True: "rewrite_toolset p s = (Inr b, s') \<Longrightarrow> b"
  unfolding rewrite_toolset_def Let_def by (rule bind_then_return_True)

lemma toolset_update_succeeds_when_answered:
  assumes "exists_path (fs s) (source_dir s @ [''allinone'', ''Build.Windows.ProjectConfiguration.props''])
             = Inr b"
  shows "fst (update_visual_studio_toolset s) = Inr True"
proof -
  have t: "fst (try_io (rewrite_toolset p)
               (\<lambda>e. then_io (print Warning (''Warning: Failed to update toolset: '' @ exn_name e))
                      (return_io True)) s') = Inr True" for p s'
    by (rule try_io_True) (auto dest: rewrite_toolset_True simp: then_io_print return_io_def)
  from assms t show ?thesis
    unfolding update_visual_studio_toolset_def
    by (simp add: then_io_print bind_get Let_def bind_exists_io return_io_def)
qed


subsection \<open>The locator skips what does not exist\<close>

lemma scan_output_dir_missing:
  "exists_path (fs s) p = Inr False \<Longrightarrow> scan_output_dir p a s = (Inr a, s)"
  by (simp add: scan_output_dir_def bind_exists_io return_io_def)

lemma scan_data_dir_missing:
  "exists_path (fs s) p = Inr False \<Longrightarrow> scan_data_dir p a s = (Inr a, s)"
  by (simp add: scan_data_dir_def bind_exists_io return_io_def)

lemma copy_data_from_missing:
  "exists_path (fs s) p = Inr False \<Longrightarrow> copy_data_from d p found s = (Inr found, s)"
  by (simp add: copy_data_from_def bind_exists_io return_io_def)

lemma not_blocked_exists: "\<not> blocked F p \<Longrightarrow> \<exists>b. exists_path F p = Inr b"
  by (simp add: exists_path_def)

lemma not_blocked_glob: "\<not> blocked F p \<Longrightarrow> \<exists>files. glob F p ext = Inr files"
  by (simp add: glob_def)

lemma scan_output_dir_returns:
  assumes "\<not> blocked (fs s) p"
  shows "\<exists>a' evs. scan_output_dir p a s = (Inr a', s\<lparr>out := out s @ evs\<rparr>)"
proof -
  from assms obtain b where b: "exists_path (fs s) p = Inr b" by (auto dest: not_blocked_exists)
  from assms obtain libs where l: "glob (fs s) p ''.lib'' = Inr libs"
    by (auto dest: not_blocked_glob)
  from assms obtain exes where x: "glob (fs s) p ''.exe'' = Inr exes"
    by (auto dest: not_blocked_glob)
  show ?thesis
  proof (cases b)
    case False
    with b have "scan_output_dir p a s = (Inr a, s\<lparr>out := out s @ []\<rparr>)"
      by (simp add: scan_output_dir_missing)
    then show ?thesis by blast
  next
    case True
    with b l x have "scan_output_dir p a s =
       (Inr (a\<lparr>lib_files := lib_files a @ libs, exe_files := exe_files a @ exes\<rparr>),
        s\<lparr>out := out s @ ([Print Info (''Checking directory: '' @ path_str p)]
            @ (if libs \<noteq> [] then [Print Info (''  Found '' @ show_nat (length libs) @ '' .lib files'')] else [])
            @ (if exes \<noteq> [] then [Print Info (''  Found '' @ show_nat (length exes) @ '' .exe files'')] else []))\<rparr>)"
      by (simp add: scan_output_dir_def bind_exists_io bind_glob_io then_io_print
            then_when_print return_io_def)
    then show ?thesis by blast
  qed
qed

lemma scan_data_dir_returns:
  assumes "\<not> blocked (fs s) p"
  shows "\<exists>a' evs. scan_data_dir p a s = (Inr a', s\<lparr>out := out s @ evs\<rparr>)"
proof -
  from assms obtain b where b: "exists_path (fs s) p = Inr b" by (auto dest: not_blocked_exists)
  from assms obtain dats where d: "glob (fs s) p ''.dat'' = Inr dats"
    by (auto dest: not_blocked_glob)
  show ?thesis
  proof (cases b)
    case False
    with b have "scan_data_dir p a s = (Inr a, s\<lparr>out := out s @ []\<rparr>)"
      by (simp add: scan_data_dir_missing)
    then show ?thesis by blast
  next
    case True
    with b d have "scan_data_dir p a s =
       (Inr (a\<lparr>dat_files := dat_files a @ dats\<rparr>),
        s\<lparr>out := out s @ (if dats \<noteq> [] then [Print Info (''Found '' @ show_nat (length dats)
                                @ '' .dat files in: '' @ path_str p)] else [])\<rparr>)"
      by (simp add: scan_data_dir_def bind_exists_io bind_glob_io then_when_print return_io_def)
    then show ?thesis by blast
  qed
qed

lemma foldM_returns:
  assumes "\<And>p a t. p \<in> set ps \<Longrightarrow> fs t = F \<Longrightarrow>
             \<exists>a' evs. body p a t = (Inr a', t\<lparr>out := out t @ evs\<rparr>)"
  shows "fs s = F \<Longrightarrow> \<exists>a' evs. foldM_io ps body a s = (Inr a', s\<lparr>out := out s @ evs\<rparr>)"
  using assms
proof (induction ps arbitrary: a s)
  case Nil
  have "foldM_io [] body a s = (Inr a, s\<lparr>out := out s @ []\<rparr>)" by (simp add: return_io_def)
  then show ?case by blast
next
  case (Cons p ps)
  from Cons.prems(2) [of p s a] Cons.prems(1)
  obtain a1 ev1 where 1: "body p a s = (Inr a1, s\<lparr>out := out s @ ev1\<rparr>)" by auto
  have "\<exists>a' evs. foldM_io ps body a1 (s\<lparr>out := out s @ ev1\<rparr>)
          = (Inr a', s\<lparr>out := out s @ ev1\<rparr>\<lparr>out := out (s\<lparr>out := out s @ ev1\<rparr>) @ evs\<rparr>)"
    by (rule Cons.IH) (use Cons.prems in auto)
  then obtain a2 ev2 where
    "foldM_io ps body a1 (s\<lparr>out := out s @ ev1\<rparr>)
       = (Inr a2, s\<lparr>out := out s @ ev1\<rparr>\<lparr>out := out (s\<lparr>out := out s @ ev1\<rparr>) @ ev2\<rparr>)"
    by blast
  then have "foldM_io ps body a1 (s\<lparr>out := out s @ ev1\<rparr>) = (Inr a2, s\<lparr>out := out s @ (ev1 @ ev2)\<rparr>)"
    by simp
  with 1 have "foldM_io (p # ps) body a s = (Inr a2, s\<lparr>out := out s @ (ev1 @ ev2)\<rparr>)"
    by (simp add: bind_io_def)
  then show ?case by blast
qed

lemma locate_in_returns:
  assumes "list_all (\<lambda>q. \<not> blocked (fs s) q) (outputs @ datas)"
  shows "\<exists>found evs. locate_in outputs datas s = (Inr found, s\<lparr>out := out s @ evs\<rparr>)"
proof -
  let ?s = "s\<lparr>out := out s @ [Print Info ''Locating build artifacts...'']\<rparr>"
  let ?a = "\<lparr>lib_files = [], exe_files = [], dat_files = []\<rparr>"
  have "\<exists>a' evs. foldM_io outputs scan_output_dir ?a ?s = (Inr a', ?s\<lparr>out := out ?s @ evs\<rparr>)"
    using assms by (intro foldM_returns [where F = "fs s"] scan_output_dir_returns)
      (auto simp: list_all_iff)
  then obtain a1 ev1 where
    1: "foldM_io outputs scan_output_dir ?a ?s = (Inr a1, ?s\<lparr>out := out ?s @ ev1\<rparr>)" by blast
  have "\<exists>a' evs. foldM_io datas scan_data_dir a1 (?s\<lparr>out := out ?s @ ev1\<rparr>)
          = (Inr a', ?s\<lparr>out := out ?s @ ev1\<rparr>\<lparr>out := out (?s\<lparr>out := out ?s @ ev1\<rparr>) @ evs\<rparr>)"
    using assms by (intro foldM_returns [where F = "fs s"] scan_data_dir_returns)
      (auto simp: list_all_iff)
  then obtain a2 ev2 where
    "foldM_io datas scan_data_dir a1 (?s\<lparr>out := out ?s @ ev1\<rparr>)
          = (Inr a2, ?s\<lparr>out := out ?s @ ev1\<rparr>\<lparr>out := out (?s\<lparr>out := out ?s @ ev1\<rparr>) @ ev2\<rparr>)"
    by blast
  then have 2: "foldM_io datas scan_data_dir a1 (?s\<lparr>out := out ?s @ ev1\<rparr>)
          = (Inr a2, s\<lparr>out := out s @ ([Print Info ''Locating build artifacts...''] @ ev1 @ ev2)\<rparr>)"
    by simp
  have "locate_in outputs datas s
          = (Inr a2, s\<lparr>out := out s @ ([Print Info ''Locating build artifacts...''] @ ev1 @ ev2)\<rparr>)"
    by (simp only: locate_in_def then_io_print bind_io_def 1 2 prod.case sum.case)
  then show ?thesis by blast
qed

text \<open>
  Claim C8, as amended. A candidate path whose existence test answers \<open>False\<close> leaves
  the locator's collections and the state as they were, without a line printed; so
  does such a data path in the configure-driven packaging loop. When every candidate
  answers \<open>False\<close>, the locator returns three empty collections, and the
  configure-driven loop finds no data and copies nothing. When no candidate lies below
  a directory that cannot be traversed, the locator returns a value and changes nothing
  but the printed output. Nothing in either loop catches a refused existence test.
\<close>

theorem locator_skips_missing_paths:
  "(exists_path (fs s) p = Inr False \<longrightarrow>
      scan_output_dir p a s = (Inr a, s) \<and> scan_data_dir p a s = (Inr a, s))
   \<and> (exists_path (fs c) p = Inr False \<longrightarrow> copy_data_from d p found c = (Inr found, c))
   \<and> (list_all (\<lambda>q. exists_path (fs s) q = Inr False) (outputs @ datas) \<longrightarrow>
        locate_in outputs datas s =
          (Inr \<lparr>lib_files = [], exe_files = [], dat_files = []\<rparr>,
           s\<lparr>out := out s @ [Print Info ''Locating build artifacts...'']\<rparr>))
   \<and> (list_all (\<lambda>q. exists_path (fs c) q = Inr False) (ICUBuilder_data_paths c) \<longrightarrow>
        foldM_io (ICUBuilder_data_paths c) (copy_data_from d) False c = (Inr False, c))
   \<and> (list_all (\<lambda>q. \<not> blocked (fs s) q) (possible_paths s @ ICUNativeBuilder_data_paths s) \<longrightarrow>
        (\<exists>found evs. locate_build_artifacts s = (Inr found, s\<lparr>out := out s @ evs\<rparr>)))"
proof (intro conjI impI)
  assume "exists_path (fs s) p = Inr False"
  then show "scan_output_dir p a s = (Inr a, s)" "scan_data_dir p a s = (Inr a, s)"
    by (simp_all add: scan_output_dir_missing scan_data_dir_missing)
next
  assume "exists_path (fs c) p = Inr False"
  then show "copy_data_from d p found c = (Inr found, c)" by (rule copy_data_from_missing)
next
  assume h: "list_all (\<lambda>q. exists_path (fs s) q = Inr False) (outputs @ datas)"
  let ?s = "s\<lparr>out := out s @ [Print Info ''Locating build artifacts...'']\<rparr>"
  let ?a = "\<lparr>lib_files = [], exe_files = [], dat_files = []\<rparr>"
  have 1: "foldM_io outputs scan_output_dir ?a ?s = (Inr ?a, ?s)"
    using h by (intro foldM_missing scan_output_dir_missing) (simp add: list_all_iff)
  have 2: "foldM_io datas scan_data_dir ?a ?s = (Inr ?a, ?s)"
    using h by (intro foldM_missing scan_data_dir_missing) (simp add: list_all_iff)
  show "locate_in outputs datas s = (Inr ?a, ?s)"
    by (simp add: locate_in_def then_io_print bind_io_def 1 2)
next
  assume "list_all (\<lambda>q. exists_path (fs c) q = Inr False) (ICUBuilder_data_paths c)"
  then show "foldM_io (ICUBuilder_data_paths c) (copy_data_from d) False c = (Inr False, c)"
    by (intro foldM_missing copy_data_from_missing) (simp add: list_all_iff)
next
  assume "list_all (\<lambda>q. \<not> blocked (fs s) q) (possible_paths s @ ICUNativeBuilder_data_paths s)"
  then show "\<exists>found evs. locate_build_artifacts s = (Inr found, s\<lparr>out := out s @ evs\<rparr>)"
    unfolding locate_build_artifacts_def bind_get by (rule locate_in_returns)
qed

theorem locator_skips_missing_paths_witness:
  "list_all (\<lambda>q. exists_path (fs st_fresh_native) q = Inr False)
     (possible_paths st_fresh_native @ ICUNativeBuilder_data_paths st_fresh_native)
   \<and> locate_in (possible_paths st_fresh_native) (ICUNativeBuilder_data_paths st_fresh_native)
        st_fresh_native =
       (Inr \<lparr>lib_files = [], exe_files = [], dat_files = []\<rparr>,
        st_fresh_native\<lparr>out := out st_fresh_native @ [Print Info ''Locating build artifacts...'']\<rparr>)
   \<and> list_all (\<lambda>q. exists_path (fs st_fresh_configure) q = Inr False)
        (ICUBuilder_data_paths st_fresh_configure)
   \<and> foldM_io (ICUBuilder_data_paths st_fresh_configure)
        (copy_data_from [''C:'', ''w'', ''icu-x64-Release-separate-data'']) False st_fresh_configure
       = (Inr False, st_fresh_configure)"
proof -
  have h: "list_all (\<lambda>q. exists_path (fs st_fresh_native) q = Inr False)
     (possible_paths st_fresh_native @ ICUNativeBuilder_data_paths st_fresh_native)"
    by code_simp
  have g: "list_all (\<lambda>q. exists_path (fs st_fresh_configure) q = Inr False)
        (ICUBuilder_data_paths st_fresh_configure)"
    by code_simp
  from locator_skips_missing_paths [where s = st_fresh_native
      and outputs = "possible_paths st_fresh_native"
      and datas = "ICUNativeBuilder_data_paths st_fresh_native"
      and c = st_fresh_configure
      and d = "[''C:'', ''w'', ''icu-x64-Release-separate-data'']"] h g
  show ?thesis by blast
qed

text \<open>
  The claim as stated fails: here no candidate path exists, and the locator raises,
  because the release directory above the candidates cannot be traversed.
\<close>

theorem locator_raises_counterexample:
  "list_all (\<lambda>q. node_at (fs st_closed_native) q = None)
     (possible_paths st_closed_native @ ICUNativeBuilder_data_paths st_closed_native)
   \<and> fst (locate_build_artifacts st_closed_native) = Inl PermissionError"
  by code_simp

subsection \<open>Build verification\<close>

lemma ICUBuilder_verify_no_lib_dir:
  "exists_path (fs s) (build_dir s @ [''lib'']) = Inr False \<Longrightarrow>
   ICUBuilder_verify_build s =
     (Inr False, s\<lparr>out := out s @ [Print Info ''Verifying build output...'',
        Print Failure (''Library directory not found: '' @ path_str (build_dir s @ [''lib'']))]\<rparr>)"
  unfolding ICUBuilder_verify_build_def
  by (simp add: then_io_print bind_get Let_def bind_exists_io return_io_def)

lemma ICUBuilder_verify_no_libs:
  "exists_path (fs s) (build_dir s @ [''lib'']) = Inr True \<Longrightarrow>
   glob (fs s) (build_dir s @ [''lib'']) ''.lib'' = Inr [] \<Longrightarrow>
   ICUBuilder_verify_build s =
     (Inr False, s\<lparr>out := out s @ [Print Info ''Verifying build output...'',
        Print Failure ''No library files found'']\<rparr>)"
  unfolding ICUBuilder_verify_build_def
  by (simp add: then_io_print bind_get Let_def bind_exists_io bind_glob_io return_io_def)

lemma ICUBuilder_verify_no_headers:
  "exists_path (fs s) (build_dir s @ [''lib'']) = Inr True \<Longrightarrow>
   glob (fs s) (build_dir s @ [''lib'']) ''.lib'' = Inr libs \<Longrightarrow> libs \<noteq> [] \<Longrightarrow>
   first_stat_error (fs s) libs = None \<Longrightarrow>
   exists_path (fs s) (build_dir s @ [''include'', ''unicode'']) = Inr False \<Longrightarrow>
   ICUBuilder_verify_build s =
     (Inr False, s\<lparr>out := out s @ [Print Info ''Verifying build output...'',
         Print Info ''Static libraries built:'']
        @ map (\<lambda>f. Print Info (''  '' @ last f)) libs
        @ [Print Failure ''Headers not found'']\<rparr>)"
  unfolding ICUBuilder_verify_build_def
  by (simp add: then_io_print bind_get Let_def bind_exists_io bind_glob_io then_print_sizes_ok
        return_io_def)

lemma ICUBuilder_verify_refused:
  "exists_path (fs s) (build_dir s @ [''lib'']) = Inl e \<Longrightarrow>
     fst (ICUBuilder_verify_build s) = Inl e"
  "exists_path (fs s) (build_dir s @ [''lib'']) = Inr True \<Longrightarrow>
   glob (fs s) (build_dir s @ [''lib'']) ''.lib'' = Inl e \<Longrightarrow>
     fst (ICUBuilder_verify_build s) = Inl e"
  "exists_path (fs s) (build_dir s @ [''lib'']) = Inr True \<Longrightarrow>
   glob (fs s) (build_dir s @ [''lib'']) ''.lib'' = Inr libs \<Longrightarrow> libs \<noteq> [] \<Longrightarrow>
   first_stat_error (fs s) libs = Some e \<Longrightarrow>
     fst (ICUBuilder_verify_build s) = Inl e"
  "exists_path (fs s) (build_dir s @ [''lib'']) = Inr True \<Longrightarrow>
   glob (fs s) (build_dir s @ [''lib'']) ''.lib'' = Inr libs \<Longrightarrow> libs \<noteq> [] \<Longrightarrow>
   first_stat_error (fs s) libs = None \<Longrightarrow>
   exists_path (fs s) (build_dir s @ [''include'', ''unicode'']) = Inl e \<Longrightarrow>
     fst (ICUBuilder_verify_build s) = Inl e"
  unfolding ICUBuilder_verify_build_def
  by (simp_all add: then_io_print bind_get Let_def bind_exists_io bind_glob_io
        then_print_sizes_ok then_print_sizes_error return_io_def)

lemma ICUBuilder_verify_headers_present:
  assumes "exists_path (fs s) (build_dir s @ [''lib'']) = Inr True"
    and "glob (fs s) (build_dir s @ [''lib'']) ''.lib'' = Inr libs" and "libs \<noteq> []"
    and "first_stat_error (fs s) libs = None"
    and "exists_path (fs s) (build_dir s @ [''include'', ''unicode'']) = Inr True"
  shows "fst (ICUBuilder_verify_build s) \<noteq> Inr False"
proof -
  from assms(5) obtain headers where
    h: "glob (fs s) (build_dir s @ [''include'', ''unicode'']) ''.h'' = Inr headers"
    by (auto dest: exists_then_glob)
  define t where "t = s\<lparr>out := out s @ [Print Info ''Verifying build output...'',
         Print Info ''Static libraries built:'']
        @ map (\<lambda>f. Print Info (''  '' @ last f)) libs
        @ [Print Info (''Header files installed: '' @ show_nat (length headers) @ '' files'')]\<rparr>"
  have eq: "ICUBuilder_verify_build s =
      then_io ICUBuilder_data_verification
        (then_io (print Success ''Build verification completed'') (return_io True)) t"
    unfolding ICUBuilder_verify_build_def t_def using assms h
    by (simp add: then_io_print bind_get Let_def bind_exists_io bind_glob_io then_print_sizes_ok)
  show ?thesis
  proof
    assume "fst (ICUBuilder_verify_build s) = Inr False"
    then obtain s' where "ICUBuilder_verify_build s = (Inr False, s')"
      by (cases "ICUBuilder_verify_build s") auto
    with eq have "then_io ICUBuilder_data_verification
        (then_io (print Success ''Build verification completed'') (return_io True)) t
          = (Inr False, s')" by simp
    then have False
      by (rule then_then_True) (auto dest: then_return_True)
    then show False .
  qed
qed

lemma ICUNativeBuilder_verify_no_lib_dir:
  "exists_path (fs s) (workspace s @ [artifact_name (config s), ''lib'']) = Inr False \<Longrightarrow>
   ICUNativeBuilder_verify_build s =
     (Inr False, s\<lparr>out := out s @ [Print Info ''Verifying build output...'',
        Print Failure (''Library directory not found: '' @ path_str (workspace s @ [artifact_name (config s), ''lib'']))]\<rparr>)"
  unfolding ICUNativeBuilder_verify_build_def
  by (simp add: then_io_print bind_get Let_def bind_exists_io return_io_def)

lemma ICUNativeBuilder_verify_no_libs:
  "exists_path (fs s) (workspace s @ [artifact_name (config s), ''lib'']) = Inr True \<Longrightarrow>
   glob (fs s) (workspace s @ [artifact_name (config s), ''lib'']) ''.lib'' = Inr [] \<Longrightarrow>
   ICUNativeBuilder_verify_build s =
     (Inr False, s\<lparr>out := out s @ [Print Info ''Verifying build output...'',
        Print Failure ''No library files found'']\<rparr>)"
  unfolding ICUNativeBuilder_verify_build_def
  by (simp add: then_io_print bind_get Let_def bind_exists_io bind_glob_io return_io_def)

lemma ICUNativeBuilder_verify_no_headers:
  "exists_path (fs s) (workspace s @ [artifact_name (config s), ''lib'']) = Inr True \<Longrightarrow>
   glob (fs s) (workspace s @ [artifact_name (config s), ''lib'']) ''.lib'' = Inr libs \<Longrightarrow> libs \<noteq> [] \<Longrightarrow>
   first_stat_error (fs s) libs = None \<Longrightarrow>
   exists_path (fs s) (workspace s @ [artifact_name (config s), ''include'', ''unicode'']) = Inr False \<Longrightarrow>
   ICUNativeBuilder_verify_build s =
     (Inr False, s\<lparr>out := out s @ [Print Info ''Verifying build output...'',
         Print Info ''Static libraries built:'']
        @ map (\<lambda>f. Print Info (''  '' @ last f)) libs
        @ [Print Failure ''Headers not found'']\<rparr>)"
  unfolding ICUNativeBuilder_verify_build_def
  by (simp add: then_io_print bind_get Let_def bind_exists_io bind_glob_io then_print_sizes_ok
        return_io_def)

lemma ICUNativeBuilder_verify_refused:
  "exists_path (fs s) (workspace s @ [artifact_name (config s), ''lib'']) = Inl e \<Longrightarrow>
     fst (ICUNativeBuilder_verify_build s) = Inl e"
  "exists_path (fs s) (workspace s @ [artifact_name (config s), ''lib'']) = Inr True \<Longrightarrow>
   glob (fs s) (workspace s @ [artifact_name (config s), ''lib'']) ''.lib'' = Inl e \<Longrightarrow>
     fst (ICUNativeBuilder_verify_build s) = Inl e"
  "exists_path (fs s) (workspace s @ [artifact_name (config s), ''lib'']) = Inr True \<Longrightarrow>
   glob (fs s) (workspace s @ [artifact_name (config s), ''lib'']) ''.lib'' = Inr libs \<Longrightarrow> libs \<noteq> [] \<Longrightarrow>
   first_stat_error (fs s) libs = Some e \<Longrightarrow>
     fst (ICUNativeBuilder_verify_build s) = Inl e"
  "exists_path (fs s) (workspace s @ [artifact_name (config s), ''lib'']) = Inr True \<Longrightarrow>
   glob (fs s) (workspace s @ [artifact_name (config s), ''lib'']) ''.lib'' = Inr libs \<Longrightarrow> libs \<noteq> [] \<Longrightarrow>
   first_stat_error (fs s) libs = None \<Longrightarrow>
   exists_path (fs s) (workspace s @ [artifact_name (config s), ''include'', ''unicode'']) = Inl e \<Longrightarrow>
     fst (ICUNativeBuilder_verify_build s) = Inl e"
  unfolding ICUNativeBuilder_verify_build_def
  by (simp_all add: then_io_print bind_get Let_def bind_exists_io bind_glob_io
        then_print_sizes_ok then_print_sizes_error return_io_def)

lemma ICUNativeBuilder_verify_headers_present:
  assumes "exists_path (fs s) (workspace s @ [artifact_name (config s), ''lib'']) = Inr True"
    and "glob (fs s) (workspace s @ [artifact_name (config s), ''lib'']) ''.lib'' = Inr libs" and "libs \<noteq> []"
    and "first_stat_error (fs s) libs = None"
    and "exists_path (fs s) (workspace s @ [artifact_name (config s), ''include'', ''unicode'']) = Inr True"
  shows "fst (ICUNativeBuilder_verify_build s) \<noteq> Inr False"
proof -
  from assms(5) obtain headers where
    h: "glob (fs s) (workspace s @ [artifact_name (config s), ''include'', ''unicode'']) ''.h'' = Inr headers"
    by (auto dest: exists_then_glob)
  define t where "t = s\<lparr>out := out s @ [Print Info ''Verifying build output...'',
         Print Info ''Static libraries built:'']
        @ map (\<lambda>f. Print Info (''  '' @ last f)) libs
        @ [Print Info (''Header files installed: '' @ show_nat (length headers) @ '' files'')]\<rparr>"
  have eq: "ICUNativeBuilder_verify_build s =
      then_io ICUNativeBuilder_data_check
        (then_io (print Success ''Build verification completed'') (return_io True)) t"
    unfolding ICUNativeBuilder_verify_build_def t_def using assms h
    by (simp add: then_io_print bind_get Let_def bind_exists_io bind_glob_io then_print_sizes_ok)
  show ?thesis
  proof
    assume "fst (ICUNativeBuilder_verify_build s) = Inr False"
    then obtain s' where "ICUNativeBuilder_verify_build s = (Inr False, s')"
      by (cases "ICUNativeBuilder_verify_build s") auto
    with eq have "then_io ICUNativeBuilder_data_check
        (then_io (print Success ''Build verification completed'') (return_io True)) t
          = (Inr False, s')" by simp
    then have False
      by (rule then_then_True) (auto dest: then_return_True)
    then show False .
  qed
qed

lemma then_io_Inr: "m s = (Inr a, s') \<Longrightarrow> then_io m k s = k s'"
  by (simp add: then_io_def bind_io_def)

lemma ICUBuilder_data_verification_separate:
  "\<not> embed_data (config s) \<Longrightarrow>
   ICUBuilder_data_verification s =
     (Inr (), s\<lparr>out := out s @ [Print Info ''Data files should be in separate .dat files'']\<rparr>)"
  by (simp add: ICUBuilder_data_verification_def bind_get print_eq)

lemma ICUBuilder_data_verification_missing:
  "embed_data (config s) \<Longrightarrow>
   exists_path (fs s) (build_dir s @ [''lib'', lib_prefix (config s) @ ''icudt.lib'']) = Inr False \<Longrightarrow>
   ICUBuilder_data_verification s =
     (Inr (), s\<lparr>out := out s @ [Print Warning ''Data library not found'']\<rparr>)"
  by (simp add: ICUBuilder_data_verification_def bind_get Let_def bind_exists_io print_eq)

lemma ICUNativeBuilder_data_check_no_data:
  "exists_path (fs s) (workspace s @ [artifact_name (config s), ''data'']) = Inr True \<Longrightarrow>
   glob (fs s) (workspace s @ [artifact_name (config s), ''data'']) ''.dat'' = Inr [] \<Longrightarrow>
   ICUNativeBuilder_data_check s =
     (Inr (), s\<lparr>out := out s @ [Print Warning ''Warning: No data files found'']\<rparr>)"
  by (simp add: ICUNativeBuilder_data_check_def bind_get Let_def bind_exists_io bind_glob_io
        when_io_def print_eq)

lemma ICUBuilder_verify_to_data:
  assumes "exists_path (fs s) (build_dir s @ [''lib'']) = Inr True"
    and "glob (fs s) (build_dir s @ [''lib'']) ''.lib'' = Inr libs" and "libs \<noteq> []"
    and "first_stat_error (fs s) libs = None"
    and "exists_path (fs s) (build_dir s @ [''include'', ''unicode'']) = Inr True"
    and "glob (fs s) (build_dir s @ [''include'', ''unicode'']) ''.h'' = Inr headers"
  shows "ICUBuilder_verify_build s =
      then_io ICUBuilder_data_verification
        (then_io (print Success ''Build verification completed'') (return_io True))
        (s\<lparr>out := out s @ [Print Info ''Verifying build output...'',
             Print Info ''Static libraries built:'']
           @ map (\<lambda>f. Print Info (''  '' @ last f)) libs
           @ [Print Info (''Header files installed: '' @ show_nat (length headers) @ '' files'')]\<rparr>)"
  unfolding ICUBuilder_verify_build_def using assms
  by (simp add: then_io_print bind_get Let_def bind_exists_io bind_glob_io then_print_sizes_ok)

lemma ICUNativeBuilder_verify_to_data:
  assumes "exists_path (fs s) (workspace s @ [artifact_name (config s), ''lib'']) = Inr True"
    and "glob (fs s) (workspace s @ [artifact_name (config s), ''lib'']) ''.lib'' = Inr libs"
    and "libs \<noteq> []"
    and "first_stat_error (fs s) libs = None"
    and "exists_path (fs s) (workspace s @ [artifact_name (config s), ''include'', ''unicode''])
           = Inr True"
    and "glob (fs s) (workspace s @ [artifact_name (config s), ''include'', ''unicode'']) ''.h''
           = Inr headers"
  shows "ICUNativeBuilder_verify_build s =
      then_io ICUNativeBuilder_data_check
        (then_io (print Success ''Build verification completed'') (return_io True))
        (s\<lparr>out := out s @ [Print Info ''Verifying build output...'',
             Print Info ''Static libraries built:'']
           @ map (\<lambda>f. Print Info (''  '' @ last f)) libs
           @ [Print Info (''Header files installed: '' @ show_nat (length headers) @ '' files'')]\<rparr>)"
  unfolding ICUNativeBuilder_verify_build_def using assms
  by (simp add: then_io_print bind_get Let_def bind_exists_io bind_glob_io then_print_sizes_ok)

lemma ICUBuilder_verify_separate:
  assumes "exists_path (fs s) (build_dir s @ [''lib'']) = Inr True"
    and "glob (fs s) (build_dir s @ [''lib'']) ''.lib'' = Inr libs" and "libs \<noteq> []"
    and "first_stat_error (fs s) libs = None"
    and "exists_path (fs s) (build_dir s @ [''include'', ''unicode'']) = Inr True"
    and "glob (fs s) (build_dir s @ [''include'', ''unicode'']) ''.h'' = Inr headers"
    and "\<not> embed_data (config s)"
  shows "ICUBuilder_verify_build s =
     (Inr True, s\<lparr>out := out s @ [Print Info ''Verifying build output...'',
         Print Info ''Static libraries built:'']
        @ map (\<lambda>f. Print Info (''  '' @ last f)) libs
        @ [Print Info (''Header files installed: '' @ show_nat (length headers) @ '' files''),
           Print Info ''Data files should be in separate .dat files'',
           Print Success ''Build verification completed'']\<rparr>)"
  unfolding ICUBuilder_verify_to_data [OF assms(1-6)]
  by (subst then_io_Inr [OF ICUBuilder_data_verification_separate])
     (simp_all add: assms(7) then_io_print return_io_def)

lemma ICUBuilder_verify_embedded_missing:
  assumes "exists_path (fs s) (build_dir s @ [''lib'']) = Inr True"
    and "glob (fs s) (build_dir s @ [''lib'']) ''.lib'' = Inr libs" and "libs \<noteq> []"
    and "first_stat_error (fs s) libs = None"
    and "exists_path (fs s) (build_dir s @ [''include'', ''unicode'']) = Inr True"
    and "glob (fs s) (build_dir s @ [''include'', ''unicode'']) ''.h'' = Inr headers"
    and "embed_data (config s)"
    and "exists_path (fs s) (build_dir s @ [''lib'', lib_prefix (config s) @ ''icudt.lib''])
           = Inr False"
  shows "ICUBuilder_verify_build s =
     (Inr True, s\<lparr>out := out s @ [Print Info ''Verifying build output...'',
         Print Info ''Static libraries built:'']
        @ map (\<lambda>f. Print Info (''  '' @ last f)) libs
        @ [Print Info (''Header files installed: '' @ show_nat (length headers) @ '' files''),
           Print Warning ''Data library not found'',
           Print Success ''Build verification completed'']\<rparr>)"
  unfolding ICUBuilder_verify_to_data [OF assms(1-6)]
  by (subst then_io_Inr [OF ICUBuilder_data_verification_missing])
     (simp_all add: assms(7,8) then_io_print return_io_def)

lemma ICUNativeBuilder_verify_no_data:
  assumes "exists_path (fs s) (workspace s @ [artifact_name (config s), ''lib'']) = Inr True"
    and "glob (fs s) (workspace s @ [artifact_name (config s), ''lib'']) ''.lib'' = Inr libs"
    and "libs \<noteq> []"
    and "first_stat_error (fs s) libs = None"
    and "exists_path (fs s) (workspace s @ [artifact_name (config s), ''include'', ''unicode''])
           = Inr True"
    and "glob (fs s) (workspace s @ [artifact_name (config s), ''include'', ''unicode'']) ''.h''
           = Inr headers"
    and "exists_path (fs s) (workspace s @ [artifact_name (config s), ''data'']) = Inr True"
    and "glob (fs s) (workspace s @ [artifact_name (config s), ''data'']) ''.dat'' = Inr []"
  shows "ICUNativeBuilder_verify_build s =
     (Inr True, s\<lparr>out := out s @ [Print Info ''Verifying build output...'',
         Print Info ''Static libraries built:'']
        @ map (\<lambda>f. Print Info (''  '' @ last f)) libs
        @ [Print Info (''Header files installed: '' @ show_nat (length headers) @ '' files''),
           Print Warning ''Warning: No data files found'',
           Print Success ''Build verification completed'']\<rparr>)"
  unfolding ICUNativeBuilder_verify_to_data [OF assms(1-6)]
  by (subst then_io_Inr [OF ICUNativeBuilder_data_check_no_data])
     (simp_all add: assms(7,8) then_io_print return_io_def)

lemma ICUNativeBuilder_data_check_no_dir:
  "exists_path (fs s) (workspace s @ [artifact_name (config s), ''data'']) = Inr False \<Longrightarrow>
   ICUNativeBuilder_data_check s = (Inr (), s)"
  by (simp add: ICUNativeBuilder_data_check_def bind_get Let_def bind_exists_io
        when_io_def return_io_def)

lemma ICUNativeBuilder_verify_no_data_dir:
  assumes "exists_path (fs s) (workspace s @ [artifact_name (config s), ''lib'']) = Inr True"
    and "glob (fs s) (workspace s @ [artifact_name (config s), ''lib'']) ''.lib'' = Inr libs"
    and "libs \<noteq> []"
    and "first_stat_error (fs s) libs = None"
    and "exists_path (fs s) (workspace s @ [artifact_name (config s), ''include'', ''unicode''])
           = Inr True"
    and "glob (fs s) (workspace s @ [artifact_name (config s), ''include'', ''unicode'']) ''.h''
           = Inr headers"
    and "exists_path (fs s) (workspace s @ [artifact_name (config s), ''data'']) = Inr False"
  shows "ICUNativeBuilder_verify_build s =
     (Inr True, s\<lparr>out := out s @ [Print Info ''Verifying build output...'',
         Print Info ''Static libraries built:'']
        @ map (\<lambda>f. Print Info (''  '' @ last f)) libs
        @ [Print Info (''Header files installed: '' @ show_nat (length headers) @ '' files''),
           Print Success ''Build verification completed'']\<rparr>)"
  unfolding ICUNativeBuilder_verify_to_data [OF assms(1-6)]
  by (subst then_io_Inr [OF ICUNativeBuilder_data_check_no_dir])
     (simp_all add: assms(7) then_io_print return_io_def)

lemma failures_prints [simp]:
  "failures (map (\<lambda>f. Print Info (g f)) xs) = []"
  "failures (Print Info m # evs) = failures evs"
  "failures (Print Success m # evs) = failures evs"
  "failures (Print Warning m # evs) = failures evs"
  "failures [] = []"
  "failures (xs' @ ys) = failures xs' @ failures ys"
  by (simp_all add: failures_def)

lemma warnings_prints [simp]:
  "warnings (map (\<lambda>f. Print Info (g f)) xs) = []"
  "warnings (Print Info m # evs) = warnings evs"
  "warnings (Print Success m # evs) = warnings evs"
  "warnings (Print Warning m # evs) = Print Warning m # warnings evs"
  "warnings [] = []"
  "warnings (xs' @ ys) = warnings xs' @ warnings ys"
  by (simp_all add: warnings_def)

text \<open>
  Claim C3, as amended. Let the library check have passed: the library directory
  exists, it holds a library, and every library answers for its size. Then verification
  returns \<open>False\<close>, with \<^verbatim>\<open>Headers not found\<close> as its last line, when the directory
  \<^verbatim>\<open>include/unicode\<close> does not exist; and when that directory exists verification does
  not return \<open>False\<close>, however many header files it holds. The configure-driven
  strategy looks under the install prefix \<open>build_dir\<close>, the project-file-driven one
  under the packaged directory.
\<close>

theorem header_check_is_directory_existence:
  "(exists_path (fs s) (build_dir s @ [''lib'']) = Inr True
      \<and> glob (fs s) (build_dir s @ [''lib'']) ''.lib'' = Inr libs \<and> libs \<noteq> []
      \<and> first_stat_error (fs s) libs = None \<longrightarrow>
      (exists_path (fs s) (build_dir s @ [''include'', ''unicode'']) = Inr False \<longrightarrow>
         fst (ICUBuilder_verify_build s) = Inr False
         \<and> last (out (snd (ICUBuilder_verify_build s))) = Print Failure ''Headers not found'')
      \<and> (exists_path (fs s) (build_dir s @ [''include'', ''unicode'']) = Inr True \<longrightarrow>
         fst (ICUBuilder_verify_build s) \<noteq> Inr False))
   \<and> (exists_path (fs t) (workspace t @ [artifact_name (config t), ''lib'']) = Inr True
      \<and> glob (fs t) (workspace t @ [artifact_name (config t), ''lib'']) ''.lib'' = Inr tlibs
      \<and> tlibs \<noteq> []
      \<and> first_stat_error (fs t) tlibs = None \<longrightarrow>
      (exists_path (fs t) (workspace t @ [artifact_name (config t), ''include'', ''unicode''])
         = Inr False \<longrightarrow>
         fst (ICUNativeBuilder_verify_build t) = Inr False
         \<and> last (out (snd (ICUNativeBuilder_verify_build t))) = Print Failure ''Headers not found'')
      \<and> (exists_path (fs t) (workspace t @ [artifact_name (config t), ''include'', ''unicode''])
         = Inr True \<longrightarrow>
         fst (ICUNativeBuilder_verify_build t) \<noteq> Inr False))"
proof (intro conjI impI)
  assume a: "exists_path (fs s) (build_dir s @ [''lib'']) = Inr True
      \<and> glob (fs s) (build_dir s @ [''lib'']) ''.lib'' = Inr libs \<and> libs \<noteq> []
      \<and> first_stat_error (fs s) libs = None"
  then have a1: "exists_path (fs s) (build_dir s @ [''lib'']) = Inr True"
    and a2: "glob (fs s) (build_dir s @ [''lib'']) ''.lib'' = Inr libs"
    and a3: "libs \<noteq> []" and a4: "first_stat_error (fs s) libs = None"
    by blast+
  {
    assume h: "exists_path (fs s) (build_dir s @ [''include'', ''unicode'']) = Inr False"
    have eq: "ICUBuilder_verify_build s =
       (Inr False, s\<lparr>out := out s @ [Print Info ''Verifying build output...'',
           Print Info ''Static libraries built:'']
          @ map (\<lambda>f. Print Info (''  '' @ last f)) libs
          @ [Print Failure ''Headers not found'']\<rparr>)"
      by (rule ICUBuilder_verify_no_headers [OF a1 a2 a3 a4 h])
    show "fst (ICUBuilder_verify_build s) = Inr False" by (simp add: eq)
    show "last (out (snd (ICUBuilder_verify_build s))) = Print Failure ''Headers not found''"
      by (simp add: eq)
  }
  {
    assume h: "exists_path (fs s) (build_dir s @ [''include'', ''unicode'']) = Inr True"
    show "fst (ICUBuilder_verify_build s) \<noteq> Inr False"
      by (rule ICUBuilder_verify_headers_present [OF a1 a2 a3 a4 h])
  }
next
  assume a: "exists_path (fs t) (workspace t @ [artifact_name (config t), ''lib'']) = Inr True
      \<and> glob (fs t) (workspace t @ [artifact_name (config t), ''lib'']) ''.lib'' = Inr tlibs
      \<and> tlibs \<noteq> []
      \<and> first_stat_error (fs t) tlibs = None"
  then have a1: "exists_path (fs t) (workspace t @ [artifact_name (config t), ''lib'']) = Inr True"
    and a2: "glob (fs t) (workspace t @ [artifact_name (config t), ''lib'']) ''.lib'' = Inr tlibs"
    and a3: "tlibs \<noteq> []" and a4: "first_stat_error (fs t) tlibs = None"
    by blast+
  {
    assume h: "exists_path (fs t) (workspace t @ [artifact_name (config t), ''include'', ''unicode''])
         = Inr False"
    have eq: "ICUNativeBuilder_verify_build t =
       (Inr False, t\<lparr>out := out t @ [Print Info ''Verifying build output...'',
           Print Info ''Static libraries built:'']
          @ map (\<lambda>f. Print Info (''  '' @ last f)) tlibs
          @ [Print Failure ''Headers not found'']\<rparr>)"
      by (rule ICUNativeBuilder_verify_no_headers [OF a1 a2 a3 a4 h])
    show "fst (ICUNativeBuilder_verify_build t) = Inr False" by (simp add: eq)
    show "last (out (snd (ICUNativeBuilder_verify_build t))) = Print Failure ''Headers not found''"
      by (simp add: eq)
  }
  {
    assume h: "exists_path (fs t) (workspace t @ [artifact_name (config t), ''include'', ''unicode''])
         = Inr True"
    show "fst (ICUNativeBuilder_verify_build t) \<noteq> Inr False"
      by (rule ICUNativeBuilder_verify_headers_present [OF a1 a2 a3 a4 h])
  }
qed

theorem header_check_is_directory_existence_witness:
  "exists_path (fs st_lib_only_configure) (build_dir st_lib_only_configure @ [''lib'']) = Inr True
   \<and> glob (fs st_lib_only_configure) (build_dir st_lib_only_configure @ [''lib'']) ''.lib''
       = Inr [[''D:'', ''icu-build'', ''x64-Release'', ''lib'', ''icuuc.lib'']]
   \<and> exists_path (fs st_lib_only_configure)
        (build_dir st_lib_only_configure @ [''include'', ''unicode'']) = Inr False
   \<and> fst (ICUBuilder_verify_build st_lib_only_configure) = Inr False
   \<and> last (out (snd (ICUBuilder_verify_build st_lib_only_configure)))
       = Print Failure ''Headers not found''
   \<and> fst (ICUNativeBuilder_verify_build st_lib_only_native) = Inr False
   \<and> last (out (snd (ICUNativeBuilder_verify_build st_lib_only_native)))
       = Print Failure ''Headers not found''
   \<and> exists_path (fs st_packaged_native)
        (workspace st_packaged_native
           @ [artifact_name (config st_packaged_native), ''include'', ''unicode'']) = Inr True
   \<and> fst (ICUNativeBuilder_verify_build st_packaged_native) \<noteq> Inr False"
proof -
  let ?cl = "[[''D:'', ''icu-build'', ''x64-Release'', ''lib'', ''icuuc.lib'']]"
  let ?nl = "[[''C:'', ''w'', ''icu-x64-Release'', ''lib'', ''icuuc.lib'']]"
  have c: "exists_path (fs st_lib_only_configure) (build_dir st_lib_only_configure @ [''lib''])
        = Inr True
     \<and> glob (fs st_lib_only_configure) (build_dir st_lib_only_configure @ [''lib'']) ''.lib''
        = Inr ?cl \<and> ?cl \<noteq> []
     \<and> first_stat_error (fs st_lib_only_configure) ?cl = None"
    by code_simp
  have ch: "exists_path (fs st_lib_only_configure)
          (build_dir st_lib_only_configure @ [''include'', ''unicode'']) = Inr False"
    by code_simp
  have n: "exists_path (fs st_lib_only_native)
        (workspace st_lib_only_native @ [artifact_name (config st_lib_only_native), ''lib''])
        = Inr True
     \<and> glob (fs st_lib_only_native)
        (workspace st_lib_only_native @ [artifact_name (config st_lib_only_native), ''lib''])
        ''.lib'' = Inr ?nl \<and> ?nl \<noteq> []
     \<and> first_stat_error (fs st_lib_only_native) ?nl = None"
    by code_simp
  have nh: "exists_path (fs st_lib_only_native)
        (workspace st_lib_only_native
           @ [artifact_name (config st_lib_only_native), ''include'', ''unicode'']) = Inr False"
    by code_simp
  have p: "exists_path (fs st_packaged_native)
        (workspace st_packaged_native @ [artifact_name (config st_packaged_native), ''lib''])
        = Inr True
     \<and> glob (fs st_packaged_native)
        (workspace st_packaged_native @ [artifact_name (config st_packaged_native), ''lib''])
        ''.lib'' = Inr ?nl \<and> ?nl \<noteq> []
     \<and> first_stat_error (fs st_packaged_native) ?nl = None"
    by code_simp
  have ph: "exists_path (fs st_packaged_native)
        (workspace st_packaged_native
           @ [artifact_name (config st_packaged_native), ''include'', ''unicode'']) = Inr True"
    by code_simp
  from header_check_is_directory_existence
         [where s = st_lib_only_configure and libs = ?cl
            and t = st_lib_only_native and tlibs = ?nl] c ch n nh
  have 1: "fst (ICUBuilder_verify_build st_lib_only_configure) = Inr False
     \<and> last (out (snd (ICUBuilder_verify_build st_lib_only_configure)))
         = Print Failure ''Headers not found''
     \<and> fst (ICUNativeBuilder_verify_build st_lib_only_native) = Inr False
     \<and> last (out (snd (ICUNativeBuilder_verify_build st_lib_only_native)))
         = Print Failure ''Headers not found''"
    by blast
  from header_check_is_directory_existence
         [where s = st_lib_only_configure and libs = ?cl
            and t = st_packaged_native and tlibs = ?nl] p ph
  have 2: "fst (ICUNativeBuilder_verify_build st_packaged_native) \<noteq> Inr False"
    by blast
  from c ch ph 1 2 show ?thesis by blast
qed

text \<open>
  The claim as stated fails: a packaged directory whose header directory holds no header
  file passes verification.
\<close>

theorem header_check_counterexample:
  "glob (fs st_packaged_native)
     (workspace st_packaged_native @ [artifact_name (config st_packaged_native), ''include'', ''unicode''])
     ''.h'' = Inr []
   \<and> fst (ICUNativeBuilder_verify_build st_packaged_native) = Inr True"
  by code_simp

lemma ICUBuilder_verify_decision:
  "(verify_decision (fs s) (build_dir s) = Inr False \<longrightarrow>
      fst (ICUBuilder_verify_build s) = Inr False)
   \<and> (verify_decision (fs s) (build_dir s) = Inl e \<longrightarrow>
      fst (ICUBuilder_verify_build s) = Inl e)
   \<and> (verify_decision (fs s) (build_dir s) = Inr True \<longrightarrow>
      fst (ICUBuilder_verify_build s) \<noteq> Inr False)"
proof (cases "exists_path (fs s) (build_dir s @ [''lib''])")
  case (Inl x)
  then show ?thesis by (simp add: verify_decision_def ICUBuilder_verify_refused(1))
next
  case (Inr b)
  show ?thesis
  proof (cases b)
    case False
    with Inr show ?thesis by (simp add: verify_decision_def ICUBuilder_verify_no_lib_dir)
  next
    case True
    with Inr have l: "exists_path (fs s) (build_dir s @ [''lib'']) = Inr True" by simp
    show ?thesis
    proof (cases "glob (fs s) (build_dir s @ [''lib'']) ''.lib''")
      case (Inl x)
      with l show ?thesis by (simp add: verify_decision_def ICUBuilder_verify_refused(2))
    next
      case g: (Inr libs)
      show ?thesis
      proof (cases "libs = []")
        case True
        with l g show ?thesis by (simp add: verify_decision_def ICUBuilder_verify_no_libs)
      next
        case ne: False
        show ?thesis
        proof (cases "first_stat_error (fs s) libs")
          case (Some x)
          with l g ne show ?thesis
            by (simp add: verify_decision_def ICUBuilder_verify_refused(3))
        next
          case None
          show ?thesis
          proof (cases "exists_path (fs s) (build_dir s @ [''include'', ''unicode''])")
            case (Inl x)
            with l g ne None show ?thesis
              by (simp add: verify_decision_def ICUBuilder_verify_refused(4))
          next
            case i: (Inr h)
            show ?thesis
            proof (cases h)
              case True
              with l g ne None i have "fst (ICUBuilder_verify_build s) \<noteq> Inr False"
                by (intro ICUBuilder_verify_headers_present) simp_all
              with l g ne None i True show ?thesis by (simp add: verify_decision_def)
            next
              case False
              with l g ne None i have "ICUBuilder_verify_build s =
                 (Inr False, s\<lparr>out := out s @ [Print Info ''Verifying build output...'',
                     Print Info ''Static libraries built:'']
                    @ map (\<lambda>f. Print Info (''  '' @ last f)) libs
                    @ [Print Failure ''Headers not found'']\<rparr>)"
                by (intro ICUBuilder_verify_no_headers) simp_all
              with l g ne None i False show ?thesis by (simp add: verify_decision_def)
            qed
          qed
        qed
      qed
    qed
  qed
qed

lemma ICUNativeBuilder_verify_decision:
  "(verify_decision (fs s) (workspace s @ [artifact_name (config s)]) = Inr False \<longrightarrow>
      fst (ICUNativeBuilder_verify_build s) = Inr False)
   \<and> (verify_decision (fs s) (workspace s @ [artifact_name (config s)]) = Inl e \<longrightarrow>
      fst (ICUNativeBuilder_verify_build s) = Inl e)
   \<and> (verify_decision (fs s) (workspace s @ [artifact_name (config s)]) = Inr True \<longrightarrow>
      fst (ICUNativeBuilder_verify_build s) \<noteq> Inr False)"
proof (cases "exists_path (fs s) (workspace s @ [artifact_name (config s), ''lib''])")
  case (Inl x)
  then show ?thesis by (simp add: verify_decision_def ICUNativeBuilder_verify_refused(1))
next
  case (Inr b)
  show ?thesis
  proof (cases b)
    case False
    with Inr show ?thesis by (simp add: verify_decision_def ICUNativeBuilder_verify_no_lib_dir)
  next
    case True
    with Inr have l: "exists_path (fs s) (workspace s @ [artifact_name (config s), ''lib'']) = Inr True" by simp
    show ?thesis
    proof (cases "glob (fs s) (workspace s @ [artifact_name (config s), ''lib'']) ''.lib''")
      case (Inl x)
      with l show ?thesis by (simp add: verify_decision_def ICUNativeBuilder_verify_refused(2))
    next
      case g: (Inr libs)
      show ?thesis
      proof (cases "libs = []")
        case True
        with l g show ?thesis by (simp add: verify_decision_def ICUNativeBuilder_verify_no_libs)
      next
        case ne: False
        show ?thesis
        proof (cases "first_stat_error (fs s) libs")
          case (Some x)
          with l g ne show ?thesis
            by (simp add: verify_decision_def ICUNativeBuilder_verify_refused(3))
        next
          case None
          show ?thesis
          proof (cases "exists_path (fs s) (workspace s @ [artifact_name (config s), ''include'', ''unicode''])")
            case (Inl x)
            with l g ne None show ?thesis
              by (simp add: verify_decision_def ICUNativeBuilder_verify_refused(4))
          next
            case i: (Inr h)
            show ?thesis
            proof (cases h)
              case True
              with l g ne None i have "fst (ICUNativeBuilder_verify_build s) \<noteq> Inr False"
                by (intro ICUNativeBuilder_verify_headers_present) simp_all
              with l g ne None i True show ?thesis by (simp add: verify_decision_def)
            next
              case False
              with l g ne None i have "ICUNativeBuilder_verify_build s =
                 (Inr False, s\<lparr>out := out s @ [Print Info ''Verifying build output...'',
                     Print Info ''Static libraries built:'']
                    @ map (\<lambda>f. Print Info (''  '' @ last f)) libs
                    @ [Print Failure ''Headers not found'']\<rparr>)"
                by (intro ICUNativeBuilder_verify_no_headers) simp_all
              with l g ne None i False show ?thesis by (simp add: verify_decision_def)
            qed
          qed
        qed
      qed
    qed
  qed
qed

text \<open>
  Claim C6, as amended. Both strategies take the same verification decision (the
  library directory exists, it holds a \<^verbatim>\<open>.lib\<close> file, every library answers for its
  size, the header directory exists): where the decision is \<open>False\<close> verification returns
  \<open>False\<close>, where it is a refusal verification raises it, where it is \<open>True\<close>
  verification does not return \<open>False\<close>. Both end their step lists with packaging and
  verification. But the decision is taken on different directories: the install prefix
  \<open>build_dir\<close> in the configure-driven strategy, the packaged directory in the
  project-file-driven one.
\<close>

theorem strategies_share_verification_decision:
  "(verify_decision (fs s) (build_dir s) = Inr False \<longrightarrow>
      fst (ICUBuilder_verify_build s) = Inr False)
   \<and> (verify_decision (fs s) (build_dir s) = Inl e \<longrightarrow>
      fst (ICUBuilder_verify_build s) = Inl e)
   \<and> (verify_decision (fs s) (build_dir s) = Inr True \<longrightarrow>
      fst (ICUBuilder_verify_build s) \<noteq> Inr False)
   \<and> (verify_decision (fs t) (workspace t @ [artifact_name (config t)]) = Inr False \<longrightarrow>
      fst (ICUNativeBuilder_verify_build t) = Inr False)
   \<and> (verify_decision (fs t) (workspace t @ [artifact_name (config t)]) = Inl e' \<longrightarrow>
      fst (ICUNativeBuilder_verify_build t) = Inl e')
   \<and> (verify_decision (fs t) (workspace t @ [artifact_name (config t)]) = Inr True \<longrightarrow>
      fst (ICUNativeBuilder_verify_build t) \<noteq> Inr False)
   \<and> map fst (drop 5 (ICUBuilder_steps E)) = [''Package artifacts'', ''Verify build'']
   \<and> map fst (drop 4 (ICUNativeBuilder_steps E)) = [''Package artifacts'', ''Verify build'']"
  using ICUBuilder_verify_decision [of s e] ICUNativeBuilder_verify_decision [of t e']
  by (simp add: ICUBuilder_steps_def ICUNativeBuilder_steps_def)

theorem strategies_share_verification_decision_witness:
  "verify_decision (fs st_lib_only_configure) (build_dir st_lib_only_configure) = Inr False
   \<and> fst (ICUBuilder_verify_build st_lib_only_configure) = Inr False
   \<and> verify_decision (fs st_closed_lib_native)
        (workspace st_closed_lib_native @ [artifact_name (config st_closed_lib_native)])
       = Inl PermissionError
   \<and> fst (ICUNativeBuilder_verify_build st_closed_lib_native) = Inl PermissionError
   \<and> verify_decision (fs st_packaged_native)
        (workspace st_packaged_native @ [artifact_name (config st_packaged_native)]) = Inr True
   \<and> fst (ICUNativeBuilder_verify_build st_packaged_native) \<noteq> Inr False"
proof -
  have a: "verify_decision (fs st_lib_only_configure) (build_dir st_lib_only_configure) = Inr False"
    by code_simp
  have b: "verify_decision (fs st_packaged_native)
        (workspace st_packaged_native @ [artifact_name (config st_packaged_native)]) = Inr True"
    by code_simp
  have c: "verify_decision (fs st_closed_lib_native)
        (workspace st_closed_lib_native @ [artifact_name (config st_closed_lib_native)])
       = Inl PermissionError"
    by code_simp
  from strategies_share_verification_decision
         [where s = st_lib_only_configure and t = st_packaged_native] a b
  have 1: "fst (ICUBuilder_verify_build st_lib_only_configure) = Inr False
     \<and> fst (ICUNativeBuilder_verify_build st_packaged_native) \<noteq> Inr False"
    by blast
  from strategies_share_verification_decision
         [where s = st_lib_only_configure and t = st_closed_lib_native
            and e' = PermissionError] c
  have 2: "fst (ICUNativeBuilder_verify_build st_closed_lib_native) = Inl PermissionError"
    by blast
  from a b c 1 2 show ?thesis by blast
qed

text \<open>
  The claim as stated fails: on one filesystem, in which the packaged directory of each
  strategy passes the decision and there is no install prefix, the configure-driven
  verification fails and the project-file-driven one succeeds.
\<close>

theorem strategies_diverge_counterexample:
  "fs st_packaged_configure = fs st_packaged_native
   \<and> verify_decision (fs st_packaged_configure)
        (workspace st_packaged_configure @ [''icu-x64-Release-separate-data'']) = Inr True
   \<and> verify_decision (fs st_packaged_native)
        (workspace st_packaged_native @ [artifact_name (config st_packaged_native)]) = Inr True
   \<and> fst (ICUBuilder_verify_build st_packaged_configure) = Inr False
   \<and> fst (ICUNativeBuilder_verify_build st_packaged_native) = Inr True"
  by code_simp

text \<open>
  Claim C7, as amended. Let the mandatory checks have passed (library directory, a
  library, every library answering for its size, header directory). Then absence of data
  never fails verification, and what is printed depends on the mode and the strategy:
  \<^item> configure-driven, embedded mode, no data library \<^verbatim>\<open>lib/sicudt.lib\<close>: the result is
    \<open>True\<close>, the one warning is \<^verbatim>\<open>Data library not found\<close>, and there is no failure line;
  \<^item> configure-driven, separate-file mode: the result is \<open>True\<close> and verification looks
    for no data file at all; it prints an information line, no warning and no failure;
  \<^item> project-file-driven, a data directory holding no \<^verbatim>\<open>.dat\<close> file: the result is
    \<open>True\<close>, the one warning is \<^verbatim>\<open>Warning: No data files found\<close>, and there is no
    failure line;
  \<^item> project-file-driven, no data directory: the result is \<open>True\<close>, with no warning and
    no failure line.
\<close>

theorem data_absence_at_verification:
  "(exists_path (fs s) (build_dir s @ [''lib'']) = Inr True
      \<and> glob (fs s) (build_dir s @ [''lib'']) ''.lib'' = Inr libs \<and> libs \<noteq> []
      \<and> first_stat_error (fs s) libs = None
      \<and> exists_path (fs s) (build_dir s @ [''include'', ''unicode'']) = Inr True \<longrightarrow>
      (embed_data (config s)
         \<and> exists_path (fs s) (build_dir s @ [''lib'', ''sicudt.lib'']) = Inr False \<longrightarrow>
         fst (ICUBuilder_verify_build s) = Inr True
         \<and> warnings (drop (length (out s)) (out (snd (ICUBuilder_verify_build s))))
             = [Print Warning ''Data library not found'']
         \<and> failures (drop (length (out s)) (out (snd (ICUBuilder_verify_build s)))) = [])
      \<and> (\<not> embed_data (config s) \<longrightarrow>
         fst (ICUBuilder_verify_build s) = Inr True
         \<and> Print Info ''Data files should be in separate .dat files''
             \<in> set (out (snd (ICUBuilder_verify_build s)))
         \<and> warnings (drop (length (out s)) (out (snd (ICUBuilder_verify_build s)))) = []
         \<and> failures (drop (length (out s)) (out (snd (ICUBuilder_verify_build s)))) = []))
   \<and> (exists_path (fs t) (workspace t @ [artifact_name (config t), ''lib'']) = Inr True
      \<and> glob (fs t) (workspace t @ [artifact_name (config t), ''lib'']) ''.lib'' = Inr tlibs
      \<and> tlibs \<noteq> []
      \<and> first_stat_error (fs t) tlibs = None
      \<and> exists_path (fs t) (workspace t @ [artifact_name (config t), ''include'', ''unicode''])
           = Inr True \<longrightarrow>
      (exists_path (fs t) (workspace t @ [artifact_name (config t), ''data'']) = Inr True
         \<and> glob (fs t) (workspace t @ [artifact_name (config t), ''data'']) ''.dat'' = Inr [] \<longrightarrow>
         fst (ICUNativeBuilder_verify_build t) = Inr True
         \<and> warnings (drop (length (out t)) (out (snd (ICUNativeBuilder_verify_build t))))
             = [Print Warning ''Warning: No data files found'']
         \<and> failures (drop (length (out t)) (out (snd (ICUNativeBuilder_verify_build t)))) = [])
      \<and> (exists_path (fs t) (workspace t @ [artifact_name (config t), ''data'']) = Inr False \<longrightarrow>
         fst (ICUNativeBuilder_verify_build t) = Inr True
         \<and> warnings (drop (length (out t)) (out (snd (ICUNativeBuilder_verify_build t)))) = []
         \<and> failures (drop (length (out t)) (out (snd (ICUNativeBuilder_verify_build t)))) = []))"
proof (intro conjI impI)
  assume a: "exists_path (fs s) (build_dir s @ [''lib'']) = Inr True
      \<and> glob (fs s) (build_dir s @ [''lib'']) ''.lib'' = Inr libs \<and> libs \<noteq> []
      \<and> first_stat_error (fs s) libs = None
      \<and> exists_path (fs s) (build_dir s @ [''include'', ''unicode'']) = Inr True"
  then have a1: "exists_path (fs s) (build_dir s @ [''lib'']) = Inr True"
    and a2: "glob (fs s) (build_dir s @ [''lib'']) ''.lib'' = Inr libs"
    and a3: "libs \<noteq> []" and a4: "first_stat_error (fs s) libs = None"
    and a5: "exists_path (fs s) (build_dir s @ [''include'', ''unicode'']) = Inr True"
    by blast+
  from a5 obtain headers where
    a6: "glob (fs s) (build_dir s @ [''include'', ''unicode'']) ''.h'' = Inr headers"
    by (auto dest: exists_then_glob)
  {
    assume e: "embed_data (config s)
         \<and> exists_path (fs s) (build_dir s @ [''lib'', ''sicudt.lib'']) = Inr False"
    then have e1: "embed_data (config s)"
      and e2: "exists_path (fs s) (build_dir s @ [''lib'', lib_prefix (config s) @ ''icudt.lib''])
           = Inr False"
      by (simp_all add: lib_prefix_def)
    note eq = ICUBuilder_verify_embedded_missing [OF a1 a2 a3 a4 a5 a6 e1 e2]
    show "fst (ICUBuilder_verify_build s) = Inr True" by (simp add: eq)
    show "warnings (drop (length (out s)) (out (snd (ICUBuilder_verify_build s))))
             = [Print Warning ''Data library not found'']" by (simp add: eq)
    show "failures (drop (length (out s)) (out (snd (ICUBuilder_verify_build s)))) = []"
      by (simp add: eq)
  }
  {
    assume e: "\<not> embed_data (config s)"
    note eq = ICUBuilder_verify_separate [OF a1 a2 a3 a4 a5 a6 e]
    show "fst (ICUBuilder_verify_build s) = Inr True" by (simp add: eq)
    show "Print Info ''Data files should be in separate .dat files''
             \<in> set (out (snd (ICUBuilder_verify_build s)))" by (simp add: eq)
    show "warnings (drop (length (out s)) (out (snd (ICUBuilder_verify_build s)))) = []"
      by (simp add: eq)
    show "failures (drop (length (out s)) (out (snd (ICUBuilder_verify_build s)))) = []"
      by (simp add: eq)
  }
next
  assume a: "exists_path (fs t) (workspace t @ [artifact_name (config t), ''lib'']) = Inr True
      \<and> glob (fs t) (workspace t @ [artifact_name (config t), ''lib'']) ''.lib'' = Inr tlibs
      \<and> tlibs \<noteq> []
      \<and> first_stat_error (fs t) tlibs = None
      \<and> exists_path (fs t) (workspace t @ [artifact_name (config t), ''include'', ''unicode''])
           = Inr True"
  then have a1: "exists_path (fs t) (workspace t @ [artifact_name (config t), ''lib'']) = Inr True"
    and a2: "glob (fs t) (workspace t @ [artifact_name (config t), ''lib'']) ''.lib'' = Inr tlibs"
    and a3: "tlibs \<noteq> []" and a4: "first_stat_error (fs t) tlibs = None"
    and a5: "exists_path (fs t) (workspace t @ [artifact_name (config t), ''include'', ''unicode''])
           = Inr True"
    by blast+
  from a5 obtain headers where
    a6: "glob (fs t) (workspace t @ [artifact_name (config t), ''include'', ''unicode'']) ''.h''
           = Inr headers"
    by (auto dest: exists_then_glob)
  {
    assume e: "exists_path (fs t) (workspace t @ [artifact_name (config t), ''data'']) = Inr True
         \<and> glob (fs t) (workspace t @ [artifact_name (config t), ''data'']) ''.dat'' = Inr []"
    then have e1: "exists_path (fs t) (workspace t @ [artifact_name (config t), ''data'']) = Inr True"
      and e2: "glob (fs t) (workspace t @ [artifact_name (config t), ''data'']) ''.dat'' = Inr []"
      by blast+
    note eq = ICUNativeBuilder_verify_no_data [OF a1 a2 a3 a4 a5 a6 e1 e2]
    show "fst (ICUNativeBuilder_verify_build t) = Inr True" by (simp add: eq)
    show "warnings (drop (length (out t)) (out (snd (ICUNativeBuilder_verify_build t))))
             = [Print Warning ''Warning: No data files found'']" by (simp add: eq)
    show "failures (drop (length (out t)) (out (snd (ICUNativeBuilder_verify_build t)))) = []"
      by (simp add: eq)
  }
  {
    assume e: "exists_path (fs t) (workspace t @ [artifact_name (config t), ''data'']) = Inr False"
    note eq = ICUNativeBuilder_verify_no_data_dir [OF a1 a2 a3 a4 a5 a6 e]
    show "fst (ICUNativeBuilder_verify_build t) = Inr True" by (simp add: eq)
    show "warnings (drop (length (out t)) (out (snd (ICUNativeBuilder_verify_build t)))) = []"
      by (simp add: eq)
    show "failures (drop (length (out t)) (out (snd (ICUNativeBuilder_verify_build t)))) = []"
      by (simp add: eq)
  }
qed

theorem data_absence_at_verification_witness:
  "embed_data (config st_installed_embedded)
   \<and> exists_path (fs st_installed_embedded)
        (build_dir st_installed_embedded @ [''lib'', ''sicudt.lib'']) = Inr False
   \<and> fst (ICUBuilder_verify_build st_installed_embedded) = Inr True
   \<and> warnings (drop (length (out st_installed_embedded))
        (out (snd (ICUBuilder_verify_build st_installed_embedded))))
       = [Print Warning ''Data library not found'']
   \<and> failures (drop (length (out st_installed_embedded))
        (out (snd (ICUBuilder_verify_build st_installed_embedded)))) = []
   \<and> glob (fs st_packaged_native)
        (workspace st_packaged_native @ [artifact_name (config st_packaged_native), ''data''])
        ''.dat'' = Inr []
   \<and> fst (ICUNativeBuilder_verify_build st_packaged_native) = Inr True
   \<and> warnings (drop (length (out st_packaged_native))
        (out (snd (ICUNativeBuilder_verify_build st_packaged_native))))
       = [Print Warning ''Warning: No data files found'']
   \<and> failures (drop (length (out st_packaged_native))
        (out (snd (ICUNativeBuilder_verify_build st_packaged_native)))) = []"
proof -
  let ?cl = "[[''D:'', ''icu-build'', ''x64-Release'', ''lib'', ''icuuc.lib'']]"
  let ?nl = "[[''C:'', ''w'', ''icu-x64-Release'', ''lib'', ''icuuc.lib'']]"
  have c: "exists_path (fs st_installed_embedded) (build_dir st_installed_embedded @ [''lib''])
        = Inr True
     \<and> glob (fs st_installed_embedded) (build_dir st_installed_embedded @ [''lib'']) ''.lib''
        = Inr ?cl \<and> ?cl \<noteq> []
     \<and> first_stat_error (fs st_installed_embedded) ?cl = None
     \<and> exists_path (fs st_installed_embedded)
          (build_dir st_installed_embedded @ [''include'', ''unicode'']) = Inr True"
    by code_simp
  have ce: "embed_data (config st_installed_embedded)
     \<and> exists_path (fs st_installed_embedded)
          (build_dir st_installed_embedded @ [''lib'', ''sicudt.lib'']) = Inr False"
    by code_simp
  have n: "exists_path (fs st_packaged_native)
        (workspace st_packaged_native @ [artifact_name (config st_packaged_native), ''lib''])
        = Inr True
     \<and> glob (fs st_packaged_native)
        (workspace st_packaged_native @ [artifact_name (config st_packaged_native), ''lib''])
        ''.lib'' = Inr ?nl \<and> ?nl \<noteq> []
     \<and> first_stat_error (fs st_packaged_native) ?nl = None
     \<and> exists_path (fs st_packaged_native)
        (workspace st_packaged_native
           @ [artifact_name (config st_packaged_native), ''include'', ''unicode'']) = Inr True"
    by code_simp
  have ne: "exists_path (fs st_packaged_native)
        (workspace st_packaged_native @ [artifact_name (config st_packaged_native), ''data''])
        = Inr True
     \<and> glob (fs st_packaged_native)
        (workspace st_packaged_native @ [artifact_name (config st_packaged_native), ''data''])
        ''.dat'' = Inr []"
    by code_simp
  from data_absence_at_verification
         [where s = st_installed_embedded and libs = ?cl
            and t = st_packaged_native and tlibs = ?nl] c ce n ne
  show ?thesis by blast
qed

text \<open>
  The claim as stated fails in its second half: in separate-file mode, with no \<^verbatim>\<open>.dat\<close>
  file anywhere on the filesystem, the configure-driven verification succeeds and prints
  no warning at all; and the project-file-driven verification of a packaged directory
  without a data directory does the same.
\<close>

theorem data_absence_counterexample:
  "\<not> embed_data (config st_installed_separate)
   \<and> filter (\<lambda>p. matches_ext ''.dat'' (last p)) (map fst (entries (fs st_installed_separate))) = []
   \<and> fst (ICUBuilder_verify_build st_installed_separate) = Inr True
   \<and> warnings (out (snd (ICUBuilder_verify_build st_installed_separate))) = []
   \<and> filter (\<lambda>p. matches_ext ''.dat'' (last p)) (map fst (entries (fs st_lib_headers_native))) = []
   \<and> fst (ICUNativeBuilder_verify_build st_lib_headers_native) = Inr True
   \<and> warnings (out (snd (ICUNativeBuilder_verify_build st_lib_headers_native))) = []"
  by code_simp

subsection \<open>Packaging\<close>

lemma native_packaging_rejects_no_libraries:
  "locate_build_artifacts (s\<lparr>out := out s @ [Print Info ''Packaging artifacts...'']\<rparr>)
     = (Inr found, s') \<Longrightarrow>
   lib_files found = [] \<Longrightarrow>
   ICUNativeBuilder_package_artifacts E s =
     (Inr False, s'\<lparr>out := out s' @ [Print Failure ''No .lib files found in any expected location'']\<rparr>)"
  unfolding ICUNativeBuilder_package_artifacts_def
  by (simp add: then_io_print bind_io_def return_io_def)

text \<open>
  Claim C2. The project-file-driven packaging returns failure, before it writes anything,
  when the locator found no library (\<open>native_packaging_rejects_no_libraries\<close>). The
  configure-driven packaging has no such test: with an install prefix whose \<^verbatim>\<open>lib\<close>
  directory holds no \<^verbatim>\<open>.lib\<close> file it returns success and writes an archive that holds
  the build information file alone.
\<close>

theorem configure_packaging_accepts_no_libraries:
  "glob (fs st_empty_install) (build_dir st_empty_install @ [''lib'']) ''.lib'' = Inr []
   \<and> fst (ICUBuilder_package_artifacts ex_env st_empty_install) = Inr True
   \<and> node_at (fs (snd (ICUBuilder_package_artifacts ex_env st_empty_install)))
        [''C:'', ''w'', ''icu-x64-Release-separate-data.zip'']
       = Some (File (Zip [([''BUILD_INFO.txt''], Text (ICUBuilder_build_info ex_env ex_config))]))"
  by code_simp

subsection \<open>Faults inside a step\<close>

lemma prepare_source_cases:
  "prepare_source E c =
     (let c1 = c\<lparr>out := out c @ [Print Info ''Preparing ICU source for Windows build...'',
                                   Run (Bash (bash_exe c) (PrepareScript (source_dir c)))]\<rparr>
      in case run_process E (Bash (bash_exe c) (PrepareScript (source_dir c))) (fs c) of
           Inl e \<Rightarrow>
             (Inr False,
              c1\<lparr>out := out c1 @ [Print Failure (''Failed to prepare source: '' @ exn_name e)]\<rparr>)
         | Inr (r, F') \<Rightarrow>
             if returncode r \<noteq> 0
             then (Inr False, c1\<lparr>fs := F',
                     out := out c1 @ [Print Failure (''Source preparation failed: '' @ stderr r)]\<rparr>)
             else (Inr True, c1\<lparr>fs := F',
                     out := out c1 @ [Print Success ''ICU source prepared successfully'']\<rparr>))"
  unfolding prepare_source_def
  by (simp add: try_io_def get_io_def run_def then_io_def bind_io_def emit_def bash_exe_def
        print_eq return_io_def Let_def split: sum.splits prod.splits)




subsection \<open>Running a step again\<close>

lemma download_skips:
  "exists_path (fs s) (source_dir s) = Inr True \<Longrightarrow>
   download_icu_source E s =
     (Inr True, s\<lparr>out := out s @ [Print Info ''Checking for ICU source...'',
        Print Success (''ICU source already available at: '' @ path_str (source_dir s))]\<rparr>)"
  unfolding download_icu_source_def
  by (simp add: then_io_print bind_get bind_exists_io return_io_def)

text \<open>
  Claim C5, as amended. Source acquisition tests for its output first: when the source
  directory exists it returns \<open>True\<close>, sends no request and leaves the filesystem as it
  is, printing two lines. Source preparation makes no such test: whatever the state, it
  starts the preparation script again.
\<close>

theorem acquisition_skips_and_preparation_reruns:
  "(exists_path (fs s) (source_dir s) = Inr True \<longrightarrow>
      fst (download_icu_source E s) = Inr True
      \<and> fs (snd (download_icu_source E s)) = fs s
      \<and> http_gets (drop (length (out s)) (out (snd (download_icu_source E s)))) = []
      \<and> runs (drop (length (out s)) (out (snd (download_icu_source E s)))) = [])
   \<and> hd (runs (drop (length (out c)) (out (snd (prepare_source E' c)))))
       = Bash (bash_exe c) (PrepareScript (source_dir c))"
proof (intro conjI impI)
  assume h: "exists_path (fs s) (source_dir s) = Inr True"
  note eq = download_skips [OF h, of E]
  show "fst (download_icu_source E s) = Inr True" by (simp add: eq)
  show "fs (snd (download_icu_source E s)) = fs s" by (simp add: eq)
  show "http_gets (drop (length (out s)) (out (snd (download_icu_source E s)))) = []"
    by (simp add: eq http_gets_def)
  show "runs (drop (length (out s)) (out (snd (download_icu_source E s)))) = []"
    by (simp add: eq runs_def)
next
  show "hd (runs (drop (length (out c)) (out (snd (prepare_source E' c)))))
       = Bash (bash_exe c) (PrepareScript (source_dir c))"
    by (simp add: prepare_source_cases Let_def runs_def split: sum.splits prod.splits)
qed

theorem acquisition_skips_and_preparation_reruns_witness:
  "exists_path (fs st_source_present) (source_dir st_source_present) = Inr True
   \<and> fst (download_icu_source ex_env st_source_present) = Inr True
   \<and> fs (snd (download_icu_source ex_env st_source_present)) = fs st_source_present
   \<and> http_gets (out (snd (download_icu_source ex_env st_source_present))) = []"
proof -
  have a: "exists_path (fs st_source_present) (source_dir st_source_present) = Inr True"
    by code_simp
  have b: "out st_source_present = []"
    by code_simp
  from acquisition_skips_and_preparation_reruns
         [where s = st_source_present and E = ex_env and c = st_source_present] a b
  show ?thesis by simp
qed

text \<open>
  The claim as stated fails for preparation: run a second time on a tree it has just
  prepared with success, it starts the same script a second time.
\<close>

theorem preparation_reruns_counterexample:
  "fst (prepare_source ex_env st_source_present) = Inr True
   \<and> runs (out (snd (prepare_source ex_env (snd (prepare_source ex_env st_source_present)))))
     = [Bash [''D:'', ''cygwin'', ''bin'', ''bash.exe'']
          (PrepareScript [''C:'', ''w'', ''icu-release-release-77-1'', ''icu4c'', ''source'']),
        Bash [''D:'', ''cygwin'', ''bin'', ''bash.exe'']
          (PrepareScript [''C:'', ''w'', ''icu-release-release-77-1'', ''icu4c'', ''source''])]"
  by code_simp

end
